theory Spec2Isabelle
  imports Main "HOL-Library.AList" "HOL-Library.Sublist"
begin

section \<open>The module container of \<^verbatim>\<open>src/core/injector/container.ts\<close>\<close>

text \<open>
  The class \<^verbatim>\<open>NestContainer\<close> keeps a registry of module records keyed by token, a
  store of dynamic module metadata and a set of global modules. Its methods mutate these
  in place and throw exceptions; here every method takes the container and returns the
  container together with either the thrown error or the returned value.
\<close>

subsection \<open>Module references\<close>

text \<open>
  \<^verbatim>\<open>Type<any>\<close> is a class; it is identified by its name. A parameter of type
  \<^verbatim>\<open>Type<any> | DynamicModule\<close> holds, at run time, nothing (\<^verbatim>\<open>undefined\<close>: the guard
  of \<^verbatim>\<open>addModule\<close> exists for this), a class, or a descriptor object whose \<^verbatim>\<open>module\<close>
  field is a class and whose other fields are optional lists. The descriptors of this type
  are finite values: a list inside a descriptor holds references smaller than the
  descriptor. A descriptor that lists itself is not a value of this type; such
  descriptors have their own embedding below (\<open>addModule_upto\<close>).
\<close>

type_synonym type_id = string

datatype module_ref =
    Undefined
  | TypeRef type_id
  | DynamicModule type_id metadata
and metadata =
    Metadata
      (md_imports: "module_ref list option")
      (md_controllers: "module_ref list option")
      (md_providers: "module_ref list option")
      (md_exports: "module_ref list option")
      (md_modules: "module_ref list option")

text \<open>The keys of \<^verbatim>\<open>DynamicModule\<close> (\<^verbatim>\<open>keyof DynamicModule\<close>).\<close>

datatype metadata_key = KModule | KImports | KControllers | KProviders | KExports | KModules

text \<open>
  \<^verbatim>\<open>metadata[metadataKey]\<close> on the stored object, which is the descriptor without its
  \<^verbatim>\<open>module\<close> field (\<^verbatim>\<open>const { module: type, ...dynamicMetadata } = metatype\<close>).
\<close>

fun field :: "metadata \<Rightarrow> metadata_key \<Rightarrow> module_ref list option" where
  "field md KModule = None"
| "field md KImports = md_imports md"
| "field md KControllers = md_controllers md"
| "field md KProviders = md_providers md"
| "field md KExports = md_exports md"
| "field md KModules = md_modules md"

subsection \<open>Errors\<close>

datatype error =
    InvalidModuleException "type_id list"
  | UnknownModuleException
  | TypeError

subsection \<open>Module records\<close>

text \<open>
  Modelled from the spec: the class \<^verbatim>\<open>Module\<close> (\<^verbatim>\<open>./module\<close>) is not among the
  sources. A Module Record has its definition (read by the container as
  \<^verbatim>\<open>module.metatype\<close>), its scope, the set of related modules, a map from component
  identifier to descriptor, and the sets of injectables, exports and routes. A record is
  an object with identity: the container and the other records hold references to it.
  A reference is the index of the record in the store \<open>objects\<close> of the container.
  The sets are kept as lists without duplicates, in insertion order.
\<close>

type_synonym module_id = nat

record Module =
  metatype :: type_id
  scope :: "type_id list"
  relatedModules :: "module_id list"
  components :: "(string \<times> type_id) list"
  injectables :: "type_id list"
  exports :: "type_id list"
  routes :: "type_id list"

text \<open>\<^verbatim>\<open>Set.prototype.add\<close>: the element is added at the end unless it is present.\<close>

definition set_add :: "'a \<Rightarrow> 'a list \<Rightarrow> 'a list" where
  "set_add x xs = (if x \<in> set xs then xs else xs @ [x])"

text \<open>Modelled from the spec: \<^verbatim>\<open>new Module(type, scope, container)\<close>.\<close>

definition new_Module :: "type_id \<Rightarrow> type_id list \<Rightarrow> Module" where
  "new_Module ty scp =
     \<lparr>metatype = ty, scope = scp, relatedModules = [], components = [],
      injectables = [], exports = [], routes = []\<rparr>"

text \<open>
  Modelled from the spec: \<^verbatim>\<open>Module.addRelatedModule(other)\<close> adds a non-owning edge and
  is a no-op if \<open>other\<close> is undefined.
\<close>

definition Module_addRelatedModule :: "module_id option \<Rightarrow> Module \<Rightarrow> Module" where
  "Module_addRelatedModule other m =
     (case other of
        None \<Rightarrow> m
      | Some r \<Rightarrow> m\<lparr>relatedModules := set_add r (relatedModules m)\<rparr>)"

text \<open>
  Modelled from the spec: \<^verbatim>\<open>Module.addComponent(componentRef)\<close> registers a provider
  under a derived identifier (the name of the class) and returns the identifier;
  registering the identifier again is idempotent.
\<close>

definition Module_addComponent :: "type_id \<Rightarrow> Module \<Rightarrow> string \<times> Module" where
  "Module_addComponent component m =
     (component, m\<lparr>components := AList.update component component (components m)\<rparr>)"

text \<open>Modelled from the spec: \<^verbatim>\<open>Module.addInjectable\<close> adds to the injectable set.\<close>

definition Module_addInjectable :: "type_id \<Rightarrow> Module \<Rightarrow> Module" where
  "Module_addInjectable injectable m = m\<lparr>injectables := set_add injectable (injectables m)\<rparr>"

text \<open>
  Modelled from the spec: \<^verbatim>\<open>Module.addExportedComponent\<close> marks a component as
  export-visible, whether it was added before or not.
\<close>

definition Module_addExportedComponent :: "type_id \<Rightarrow> Module \<Rightarrow> Module" where
  "Module_addExportedComponent exported m = m\<lparr>exports := set_add exported (exports m)\<rparr>"

text \<open>Modelled from the spec: \<^verbatim>\<open>Module.addRoute\<close> adds to the controller/route set.\<close>

definition Module_addRoute :: "type_id \<Rightarrow> Module \<Rightarrow> Module" where
  "Module_addRoute controller m = m\<lparr>routes := set_add controller (routes m)\<rparr>"

text \<open>
  Modelled from the spec: \<^verbatim>\<open>Module.replace(toReplace, options)\<close> swaps an existing
  registered component or injectable for a different implementation and preserves the
  identifier. Of \<open>options\<close> only the replacing implementation is kept.
\<close>

definition Module_replace :: "type_id \<Rightarrow> type_id \<Rightarrow> Module \<Rightarrow> Module" where
  "Module_replace toReplace impl m =
     (if map_of (components m) toReplace \<noteq> None
      then m\<lparr>components := AList.update toReplace impl (components m)\<rparr>
      else m)"

subsection \<open>The container\<close>

text \<open>
  Modelled from the spec: \<^verbatim>\<open>ModulesContainer\<close> (\<^verbatim>\<open>./modules-container\<close>) is not among
  the sources. It is a token-keyed mapping that iterates in insertion order, with
  \<open>has\<close>, \<open>get\<close>, \<open>set\<close>, \<open>forEach\<close> and \<open>clear\<close>: an association list, where \<open>set\<close>
  replaces the value of a present key in place and appends an absent key.
\<close>

type_synonym token = string

type_synonym modules_container = "(token \<times> module_id) list"

definition has :: "modules_container \<Rightarrow> token \<Rightarrow> bool" where
  "has ms tok = (map_of ms tok \<noteq> None)"

definition get :: "modules_container \<Rightarrow> token \<Rightarrow> module_id option" where
  "get ms tok = map_of ms tok"

definition set_entry :: "token \<Rightarrow> module_id \<Rightarrow> modules_container \<Rightarrow> modules_container" where
  "set_entry tok m ms = AList.update tok m ms"

text \<open>
  The fields of \<^verbatim>\<open>NestContainer\<close> that its methods write, and the store of the module
  records that the references of the other fields point into. The application
  configuration is a read-only constructor parameter and is left out. The type \<open>'md\<close>
  is the representation of a stored dynamic configuration.
\<close>

record 'md container_of =
  globalModules :: "module_id list"
  modules :: modules_container
  dynamicModulesMetadata :: "token \<rightharpoonup> 'md"
  applicationRef :: "string option"
  objects :: "Module list"

type_synonym container = "metadata container_of"

definition empty_container :: "'md container_of" where
  "empty_container =
     \<lparr>globalModules = [], modules = [], dynamicModulesMetadata = Map.empty,
      applicationRef = None, objects = []\<rparr>"

text \<open>
  The collaborators the container reads but does not own. \<^verbatim>\<open>ModuleTokenFactory.create\<close>
  (\<^verbatim>\<open>./module-token-factory\<close>, not among the sources) is a deterministic function of
  the type, the scope and the dynamic metadata; the flag read by
  \<^verbatim>\<open>Reflect.getMetadata(GLOBAL_MODULE_METADATA, metatype)\<close> is a function of the type.
  Both are parameters of the model.
\<close>

record 'md env_of =
  create :: "type_id \<Rightarrow> type_id list \<Rightarrow> 'md option \<Rightarrow> token"
  global_metadata :: "type_id \<Rightarrow> bool"

type_synonym env = "metadata env_of"

type_synonym 'a outcome = "(error + 'a) \<times> container"

definition setApplicationRef :: "string \<Rightarrow> container \<Rightarrow> container" where
  "setApplicationRef r c = c\<lparr>applicationRef := Some r\<rparr>"

definition getApplicationRef :: "container \<Rightarrow> string option" where
  "getApplicationRef c = applicationRef c"

text \<open>\<^verbatim>\<open>!!module.module\<close>; reading a property of \<^verbatim>\<open>undefined\<close> throws a TypeError.\<close>

fun isDynamicModule :: "module_ref \<Rightarrow> error + bool" where
  "isDynamicModule Undefined = Inl TypeError"
| "isDynamicModule (TypeRef ty) = Inr False"
| "isDynamicModule (DynamicModule ty md) = Inr True"

fun extractMetadata :: "module_ref \<Rightarrow> error + (type_id \<times> metadata option)" where
  "extractMetadata Undefined = Inl TypeError"
| "extractMetadata (TypeRef ty) = Inr (ty, None)"
| "extractMetadata (DynamicModule ty md) = Inr (ty, Some md)"

definition isGlobalModule :: "'md env_of \<Rightarrow> type_id \<Rightarrow> bool" where
  "isGlobalModule e ty = global_metadata e ty"

definition addGlobalModule :: "module_id \<Rightarrow> 'md container_of \<Rightarrow> 'md container_of" where
  "addGlobalModule m c = c\<lparr>globalModules := set_add m (globalModules c)\<rparr>"

definition getModules :: "container \<Rightarrow> modules_container" where
  "getModules c = modules c"

text \<open>\<^verbatim>\<open>!metatype\<close> is false for a class and for a descriptor object.\<close>

definition truthy :: "module_ref \<Rightarrow> bool" where
  "truthy r = (r \<noteq> Undefined)"

text \<open>
  \<^verbatim>\<open>addModule\<close>, \<^verbatim>\<open>addDynamicMetadata\<close> and \<^verbatim>\<open>addDynamicModules\<close> call each other.
  \<open>addModules_each\<close> is the loop of \<^verbatim>\<open>modules.map(module => this.addModule(module, scope))\<close>:
  an exception thrown by one call ends it, and the container keeps what was done before.
  \<^verbatim>\<open>new Module(type, scope, this)\<close> allocates the next reference of the store.
\<close>

function addModule :: "env \<Rightarrow> module_ref \<Rightarrow> type_id list \<Rightarrow> container \<Rightarrow> unit outcome"
  and addDynamicMetadata ::
    "env \<Rightarrow> token \<Rightarrow> metadata option \<Rightarrow> type_id list \<Rightarrow> container \<Rightarrow> unit outcome"
  and addDynamicModules ::
    "env \<Rightarrow> module_ref list option \<Rightarrow> type_id list \<Rightarrow> container \<Rightarrow> unit outcome"
  and addModules_each ::
    "env \<Rightarrow> module_ref list \<Rightarrow> type_id list \<Rightarrow> container \<Rightarrow> unit outcome"
where
  "addModule e r scp c =
     (if \<not> truthy r then (Inl (InvalidModuleException scp), c)
      else case extractMetadata r of
        Inl err \<Rightarrow> (Inl err, c)
      | Inr (ty, dynamicMetadata) \<Rightarrow>
     (let tok = create e ty scp dynamicMetadata in
      if has (modules c) tok then (Inr (), c)
      else
        let m = length (objects c);
            c1 = c\<lparr>objects := objects c @ [new_Module ty scp],
                   modules := set_entry tok m (modules c)\<rparr>
        in case addDynamicMetadata e tok dynamicMetadata (scp @ [ty]) c1 of
             (Inl err, c2) \<Rightarrow> (Inl err, c2)
           | (Inr u, c2) \<Rightarrow>
               (Inr (), if isGlobalModule e ty then addGlobalModule m c2 else c2)))"
| "addDynamicMetadata e tok None scp c = (Inr (), c)"
| "addDynamicMetadata e tok (Some md) scp c =
     (let c1 = c\<lparr>dynamicModulesMetadata := (dynamicModulesMetadata c)(tok \<mapsto> md)\<rparr>
      in case addDynamicModules e (md_modules md) scp c1 of
           (Inl err, c2) \<Rightarrow> (Inl err, c2)
         | (Inr u, c2) \<Rightarrow> addDynamicModules e (md_imports md) scp c2)"
| "addDynamicModules e None scp c = (Inr (), c)"
| "addDynamicModules e (Some ms) scp c = addModules_each e ms scp c"
| "addModules_each e [] scp c = (Inr (), c)"
| "addModules_each e (r # rs) scp c =
     (case addModule e r scp c of
        (Inl err, c1) \<Rightarrow> (Inl err, c1)
      | (Inr u, c1) \<Rightarrow> addModules_each e rs scp c1)"
  by pat_completeness auto
termination
  apply (relation "measure (\<lambda>x. case x of
      Inl (Inl (e, r, scp, c)) \<Rightarrow> 4 * size r + 3
    | Inl (Inr (e, tok, mdo, scp, c)) \<Rightarrow> (case mdo of None \<Rightarrow> 0 | Some md \<Rightarrow> 4 * size md + 2)
    | Inr (Inl (e, mso, scp, c)) \<Rightarrow> (case mso of None \<Rightarrow> 0 | Some ms \<Rightarrow> 4 * size_list size ms + 1)
    | Inr (Inr (e, ms, scp, c)) \<Rightarrow> 4 * size_list size ms)")
  subgoal by simp
  subgoal for e r by (cases r) (auto simp: truthy_def)
  subgoal for e tok md by (cases md) (auto split: option.splits)
  subgoal for e tok md by (cases md) (auto split: option.splits)
  by auto

text \<open>
  \<open>update_object m f\<close> is the call of a method \<open>f\<close> that mutates the record behind the
  reference \<open>m\<close>.
\<close>

definition update_object :: "module_id \<Rightarrow> (Module \<Rightarrow> Module) \<Rightarrow> container \<Rightarrow> container" where
  "update_object m f c = c\<lparr>objects := (objects c)[m := f (objects c ! m)]\<rparr>"

text \<open>
  In the methods below \<^verbatim>\<open>this.modules.get(token)\<close> follows a successful
  \<^verbatim>\<open>this.modules.has(token)\<close>, so it finds a record; calling a method of the
  \<^verbatim>\<open>undefined\<close> it would return otherwise is a TypeError.
\<close>

definition addRelatedModule :: "env \<Rightarrow> module_ref \<Rightarrow> token \<Rightarrow> container \<Rightarrow> unit outcome" where
  "addRelatedModule e relatedModule tok c =
     (if \<not> has (modules c) tok then (Inr (), c)
      else case get (modules c) tok of
        None \<Rightarrow> (Inl TypeError, c)
      | Some m \<Rightarrow>
          (let parent = metatype (objects c ! m) in
           case extractMetadata relatedModule of
             Inl err \<Rightarrow> (Inl err, c)
           | Inr (ty, dynamicMetadata) \<Rightarrow>
               (let relatedModuleToken =
                      create e ty (scope (objects c ! m) @ [parent]) dynamicMetadata;
                    related = get (modules c) relatedModuleToken
                in (Inr (), update_object m (Module_addRelatedModule related) c))))"

definition addComponent :: "type_id \<Rightarrow> token \<Rightarrow> container \<Rightarrow> string outcome" where
  "addComponent component tok c =
     (if \<not> has (modules c) tok then (Inl UnknownModuleException, c)
      else case get (modules c) tok of
        None \<Rightarrow> (Inl TypeError, c)
      | Some m \<Rightarrow>
          (Inr (fst (Module_addComponent component (objects c ! m))),
           update_object m (\<lambda>r. snd (Module_addComponent component r)) c))"

definition addInjectable :: "type_id \<Rightarrow> token \<Rightarrow> container \<Rightarrow> unit outcome" where
  "addInjectable injectable tok c =
     (if \<not> has (modules c) tok then (Inl UnknownModuleException, c)
      else case get (modules c) tok of
        None \<Rightarrow> (Inl TypeError, c)
      | Some m \<Rightarrow>
          (Inr (), update_object m (Module_addInjectable injectable) c))"

definition addExportedComponent :: "type_id \<Rightarrow> token \<Rightarrow> container \<Rightarrow> unit outcome" where
  "addExportedComponent exportedComponent tok c =
     (if \<not> has (modules c) tok then (Inl UnknownModuleException, c)
      else case get (modules c) tok of
        None \<Rightarrow> (Inl TypeError, c)
      | Some m \<Rightarrow>
          (Inr (), update_object m (Module_addExportedComponent exportedComponent) c))"

definition addController :: "type_id \<Rightarrow> token \<Rightarrow> container \<Rightarrow> unit outcome" where
  "addController controller tok c =
     (if \<not> has (modules c) tok then (Inl UnknownModuleException, c)
      else case get (modules c) tok of
        None \<Rightarrow> (Inl TypeError, c)
      | Some m \<Rightarrow>
          (Inr (), update_object m (Module_addRoute controller) c))"

definition clear :: "container \<Rightarrow> container" where
  "clear c = c\<lparr>modules := []\<rparr>"

text \<open>
  \<^verbatim>\<open>[...this.modules.values()].forEach(module => module.replace(toReplace, options))\<close>
  and the two \<^verbatim>\<open>forEach\<close> passes of the global binding visit the records in insertion
  order.
\<close>

definition replace :: "type_id \<Rightarrow> type_id \<Rightarrow> container \<Rightarrow> container" where
  "replace toReplace options c =
     fold (\<lambda>m. update_object m (Module_replace toReplace options)) (map snd (modules c)) c"

definition bindGlobalModuleToModule :: "module_id \<Rightarrow> module_id \<Rightarrow> container \<Rightarrow> container" where
  "bindGlobalModuleToModule m globalModule c =
     (if m = globalModule then c
      else update_object m (Module_addRelatedModule (Some globalModule)) c)"

definition bindGlobalsToRelatedModules :: "module_id \<Rightarrow> container \<Rightarrow> container" where
  "bindGlobalsToRelatedModules m c =
     fold (\<lambda>globalModule. bindGlobalModuleToModule m globalModule) (globalModules c) c"

definition bindGlobalScope :: "container \<Rightarrow> container" where
  "bindGlobalScope c = fold (\<lambda>m. bindGlobalsToRelatedModules m) (map snd (modules c)) c"

text \<open>
  \<^verbatim>\<open>metadata && metadata[metadataKey]\<close>: a stored object is truthy, and so is a list,
  the empty one too.
\<close>

definition getDynamicMetadataByToken :: "container \<Rightarrow> token \<Rightarrow> metadata_key \<Rightarrow> module_ref list" where
  "getDynamicMetadataByToken c tok metadataKey =
     (case dynamicModulesMetadata c tok of
        None \<Rightarrow> []
      | Some md \<Rightarrow> (case field md metadataKey of None \<Rightarrow> [] | Some xs \<Rightarrow> xs))"

subsection \<open>Observations and invariants\<close>

text \<open>The token \<^verbatim>\<open>addModule\<close> computes for a reference that is present.\<close>

fun ref_token :: "env \<Rightarrow> module_ref \<Rightarrow> type_id list \<Rightarrow> token option" where
  "ref_token e Undefined scp = None"
| "ref_token e (TypeRef ty) scp = Some (create e ty scp None)"
| "ref_token e (DynamicModule ty md) scp = Some (create e ty scp (Some md))"


text \<open>
  A reference mentions \<^verbatim>\<open>undefined\<close> when it is absent itself or a reference nested in
  its \<^verbatim>\<open>modules\<close> or \<^verbatim>\<open>imports\<close> lists, at any depth, is.
\<close>

fun mentions_undefined :: "module_ref \<Rightarrow> bool"
  and mentions_undefined_md :: "metadata \<Rightarrow> bool"
  and mentions_undefined_list :: "module_ref list \<Rightarrow> bool"
where
  "mentions_undefined Undefined = True"
| "mentions_undefined (TypeRef ty) = False"
| "mentions_undefined (DynamicModule ty md) = mentions_undefined_md md"
| "mentions_undefined_md (Metadata imps ctrls provs exps mods) =
     ((case mods of None \<Rightarrow> False | Some ms \<Rightarrow> mentions_undefined_list ms) \<or>
      (case imps of None \<Rightarrow> False | Some ms \<Rightarrow> mentions_undefined_list ms))"
| "mentions_undefined_list [] = False"
| "mentions_undefined_list (r # rs) = (mentions_undefined r \<or> mentions_undefined_list rs)"

text \<open>
  The number of Module Records the registry holds for a token, and the record a token
  leads to.
\<close>

definition records_for :: "container \<Rightarrow> token \<Rightarrow> nat" where
  "records_for c tok = length (filter (\<lambda>p. fst p = tok) (modules c))"

definition record_of :: "container \<Rightarrow> token \<Rightarrow> Module option" where
  "record_of c tok =
     (case get (modules c) tok of None \<Rightarrow> None | Some m \<Rightarrow> Some (objects c ! m))"

text \<open>
  A container is well formed when its registry has one entry per token (it is a
  \<^verbatim>\<open>Map\<close>), its global-module set has no duplicates (it is a \<^verbatim>\<open>Set\<close>), and the
  references it holds point to records of the store.
\<close>

definition wf_container :: "container \<Rightarrow> bool" where
  "wf_container c =
     (distinct (map fst (modules c)) \<and>
      distinct (globalModules c) \<and>
      (\<forall>m \<in> set (map snd (modules c)). m < length (objects c)) \<and>
      (\<forall>g \<in> set (globalModules c). g < length (objects c)))"

text \<open>Every entry of the registry is filed under a token of its record's type and scope.\<close>

definition tokens_consistent :: "env \<Rightarrow> container \<Rightarrow> bool" where
  "tokens_consistent e c =
     (\<forall>p \<in> set (modules c).
        \<exists>d. fst p = create e (metatype (objects c ! snd p)) (scope (objects c ! snd p)) d)"

definition no_self_relation :: "container \<Rightarrow> bool" where
  "no_self_relation c =
     (\<forall>m < length (objects c). m \<notin> set (relatedModules (objects c ! m)))"

text \<open>
  A property a token factory can have: the scope takes part in every token, so two
  registrations in different scopes never receive the same token. It is a condition
  stated where it is needed, not a property of every factory: the spec promises
  different tokens for different scopes only for the same dynamic module type, and says
  that two definitions reached through different scopes may receive different tokens.
\<close>

definition scope_sensitive ::
  "(type_id \<Rightarrow> type_id list \<Rightarrow> 'md option \<Rightarrow> token) \<Rightarrow> bool" where
  "scope_sensitive f = (\<forall>ty scp d ty' scp' d'. f ty scp d = f ty' scp' d' \<longrightarrow> scp = scp')"

text \<open>
  \<^verbatim>\<open>addRelatedModule(relatedModule, token)\<close> resolves to the owner when the token it
  computes for the related reference, in the scope of the owner extended by the type of
  the owner, is registered for the record of the owner itself.
\<close>

definition resolves_to_owner :: "env \<Rightarrow> module_ref \<Rightarrow> token \<Rightarrow> container \<Rightarrow> bool" where
  "resolves_to_owner e r tok c =
     (case get (modules c) tok of
        None \<Rightarrow> False
      | Some m \<Rightarrow>
          (case ref_token e r (scope (objects c ! m) @ [metatype (objects c ! m)]) of
             None \<Rightarrow> False
           | Some rt \<Rightarrow> get (modules c) rt = Some m))"

text \<open>
  The states a container reaches from the empty one through its own methods, where the
  calls of \<^verbatim>\<open>addRelatedModule\<close> are those that satisfy \<open>P\<close>. A call that throws leaves
  the container as it was at the throw. \<^verbatim>\<open>addGlobalModule\<close> is given a record of the
  container. \<open>reachable\<close> allows every call.
\<close>

inductive reachable_where ::
    "(module_ref \<Rightarrow> token \<Rightarrow> container \<Rightarrow> bool) \<Rightarrow> env \<Rightarrow> container \<Rightarrow> bool"
  for P :: "module_ref \<Rightarrow> token \<Rightarrow> container \<Rightarrow> bool" and e :: env
where
  r_empty: "reachable_where P e empty_container"
| r_setApplicationRef: "reachable_where P e c \<Longrightarrow> reachable_where P e (setApplicationRef a c)"
| r_addModule: "reachable_where P e c \<Longrightarrow> reachable_where P e (snd (addModule e r scp c))"
| r_addRelatedModule:
    "reachable_where P e c \<Longrightarrow> P r tok c \<Longrightarrow>
     reachable_where P e (snd (addRelatedModule e r tok c))"
| r_addComponent: "reachable_where P e c \<Longrightarrow> reachable_where P e (snd (addComponent x tok c))"
| r_addInjectable: "reachable_where P e c \<Longrightarrow> reachable_where P e (snd (addInjectable x tok c))"
| r_addExportedComponent:
    "reachable_where P e c \<Longrightarrow> reachable_where P e (snd (addExportedComponent x tok c))"
| r_addController: "reachable_where P e c \<Longrightarrow> reachable_where P e (snd (addController x tok c))"
| r_clear: "reachable_where P e c \<Longrightarrow> reachable_where P e (clear c)"
| r_replace: "reachable_where P e c \<Longrightarrow> reachable_where P e (replace x y c)"
| r_bindGlobalScope: "reachable_where P e c \<Longrightarrow> reachable_where P e (bindGlobalScope c)"
| r_bindGlobalsToRelatedModules:
    "reachable_where P e c \<Longrightarrow> reachable_where P e (bindGlobalsToRelatedModules m c)"
| r_bindGlobalModuleToModule:
    "reachable_where P e c \<Longrightarrow> reachable_where P e (bindGlobalModuleToModule m g c)"
| r_addDynamicMetadata:
    "reachable_where P e c \<Longrightarrow>
     reachable_where P e (snd (addDynamicMetadata e tok mdo scp c))"
| r_addDynamicModules:
    "reachable_where P e c \<Longrightarrow> reachable_where P e (snd (addDynamicModules e mso scp c))"
| r_addGlobalModule:
    "reachable_where P e c \<Longrightarrow> m < length (objects c) \<Longrightarrow>
     reachable_where P e (addGlobalModule m c)"

abbreviation reachable :: "env \<Rightarrow> container \<Rightarrow> bool" where
  "reachable \<equiv> reachable_where (\<lambda>r tok c. True)"

text \<open>
  The container after the two statements \<^verbatim>\<open>new Module(type, scope, this)\<close> and
  \<^verbatim>\<open>this.modules.set(token, module)\<close> of \<^verbatim>\<open>addModule\<close>.
\<close>

definition registered :: "token \<Rightarrow> type_id \<Rightarrow> type_id list \<Rightarrow> container \<Rightarrow> container" where
  "registered tok ty scp c =
     c\<lparr>objects := objects c @ [new_Module ty scp],
       modules := set_entry tok (length (objects c)) (modules c)\<rparr>"

text \<open>
  Registration only adds: the registry and the store are extended at the end, the
  global-module set keeps its members, the application reference stays.
\<close>

definition grows :: "container \<Rightarrow> container \<Rightarrow> bool" where
  "grows c c' =
     (prefix (modules c) (modules c') \<and>
      prefix (objects c) (objects c') \<and>
      set (globalModules c) \<subseteq> set (globalModules c') \<and>
      applicationRef c' = applicationRef c)"

definition registry_inv :: "env \<Rightarrow> container \<Rightarrow> bool" where
  "registry_inv e c = (wf_container c \<and> tokens_consistent e c)"

subsection \<open>An instance of the collaborators\<close>

text \<open>
  For evaluating the container on concrete inputs: a token factory that spells out the
  scope, the type and whether a dynamic configuration is present, and a metadata reader
  that flags the types whose name starts with \<open>G\<close> as global. Every name of the scope
  is written with a mark before each character and a mark after the name, so the scope
  can be read back from the token.
\<close>

fun enc_name :: "string \<Rightarrow> string" where
  "enc_name [] = ''/''"
| "enc_name (x # xs) = CHR ''.'' # x # enc_name xs"

fun enc_scope :: "type_id list \<Rightarrow> string" where
  "enc_scope [] = '':''"
| "enc_scope (n # ns) = CHR '','' # enc_name n @ enc_scope ns"

definition path_token :: "type_id \<Rightarrow> type_id list \<Rightarrow> 'md option \<Rightarrow> token" where
  "path_token ty scp d = enc_scope scp @ ty @ (case d of None \<Rightarrow> [] | Some md \<Rightarrow> ''+'')"

definition example_env :: "'md env_of" where
  "example_env = \<lparr>create = path_token, global_metadata = (\<lambda>ty. take 1 ty = ''G'')\<rparr>"

text \<open>
  A second instance, whose token factory ignores the scope and the dynamic
  configuration: the token is the name of the type.
\<close>

definition name_env :: "'md env_of" where
  "name_env = \<lparr>create = (\<lambda>ty scp d. ty), global_metadata = (\<lambda>ty. take 1 ty = ''G'')\<rparr>"

text \<open>
  A container for evaluating the operations: after the registration of \<open>Root\<close>, of the
  global module \<open>GlobalCfg\<close> imported by \<open>Root\<close>, and of a dynamic module \<open>Dyn\<close>
  imported by \<open>Root\<close> whose configuration imports \<open>Sub\<close>.
\<close>

definition example_dyn :: module_ref where
  "example_dyn = DynamicModule ''Dyn'' (Metadata (Some [TypeRef ''Sub'']) None None None None)"

definition example_base :: container where
  "example_base =
     snd (addModule example_env (TypeRef ''GlobalCfg'') [''Root'']
       (snd (addModule example_env (TypeRef ''Root'') [] empty_container)))"

definition example_container :: container where
  "example_container = snd (addModule example_env example_dyn [''Root''] example_base)"

text \<open>
  A container of the second instance: \<open>A\<close> is registered, the global module \<open>GB\<close> it
  imports is registered in the scope of \<open>A\<close>, and \<open>GB\<close> is related to \<open>A\<close>.
\<close>

definition related_example :: container where
  "related_example =
     snd (addRelatedModule name_env (TypeRef ''GB'') ''A''
       (snd (addModule name_env (TypeRef ''GB'') [''A'']
         (snd (addModule name_env (TypeRef ''A'') [] empty_container)))))"

subsection \<open>Descriptors that list themselves\<close>

text \<open>
  A descriptor is an object, and a list inside it can hold a reference to the descriptor
  itself. \<open>module_ref\<close> has no such value. Here the descriptors of the caller live in a
  table and are referred to by address; the registration is the same code as above, with
  the descriptor read from the table, the stored configuration represented by the
  address of its descriptor, and a bound on the depth of the calls of \<^verbatim>\<open>addModule\<close>:
  the result \<open>None\<close> says that the call has not returned within the bound.
\<close>

type_synonym addr = nat

datatype object_ref =
    NoObject
  | ClassObject type_id
  | DescriptorObject addr

record descriptor =
  d_module :: type_id
  d_imports :: "object_ref list option"
  d_controllers :: "object_ref list option"
  d_providers :: "object_ref list option"
  d_exports :: "object_ref list option"
  d_modules :: "object_ref list option"

type_synonym descriptors = "addr \<Rightarrow> descriptor"

fun object_truthy :: "object_ref \<Rightarrow> bool" where
  "object_truthy NoObject = False"
| "object_truthy (ClassObject ty) = True"
| "object_truthy (DescriptorObject a) = True"

fun object_extractMetadata :: "descriptors \<Rightarrow> object_ref \<Rightarrow> error + (type_id \<times> addr option)" where
  "object_extractMetadata ds NoObject = Inl TypeError"
| "object_extractMetadata ds (ClassObject ty) = Inr (ty, None)"
| "object_extractMetadata ds (DescriptorObject a) = Inr (d_module (ds a), Some a)"

function addModule_upto ::
    "nat \<Rightarrow> descriptors \<Rightarrow> addr env_of \<Rightarrow> object_ref \<Rightarrow> type_id list \<Rightarrow> addr container_of \<Rightarrow>
     ((error + unit) \<times> addr container_of) option"
  and addDynamicMetadata_upto ::
    "nat \<Rightarrow> descriptors \<Rightarrow> addr env_of \<Rightarrow> token \<Rightarrow> addr option \<Rightarrow> type_id list \<Rightarrow>
     addr container_of \<Rightarrow> ((error + unit) \<times> addr container_of) option"
  and addDynamicModules_upto ::
    "nat \<Rightarrow> descriptors \<Rightarrow> addr env_of \<Rightarrow> object_ref list option \<Rightarrow> type_id list \<Rightarrow>
     addr container_of \<Rightarrow> ((error + unit) \<times> addr container_of) option"
  and addModules_each_upto ::
    "nat \<Rightarrow> descriptors \<Rightarrow> addr env_of \<Rightarrow> object_ref list \<Rightarrow> type_id list \<Rightarrow>
     addr container_of \<Rightarrow> ((error + unit) \<times> addr container_of) option"
where
  "addModule_upto 0 ds e r scp c = None"
| "addModule_upto (Suc n) ds e r scp c =
     (if \<not> object_truthy r then Some (Inl (InvalidModuleException scp), c)
      else case object_extractMetadata ds r of
        Inl err \<Rightarrow> Some (Inl err, c)
      | Inr (ty, dynamicMetadata) \<Rightarrow>
     (let tok = create e ty scp dynamicMetadata in
      if has (modules c) tok then Some (Inr (), c)
      else
        let m = length (objects c);
            c1 = c\<lparr>objects := objects c @ [new_Module ty scp],
                   modules := set_entry tok m (modules c)\<rparr>
        in case addDynamicMetadata_upto n ds e tok dynamicMetadata (scp @ [ty]) c1 of
             None \<Rightarrow> None
           | Some (Inl err, c2) \<Rightarrow> Some (Inl err, c2)
           | Some (Inr u, c2) \<Rightarrow>
               Some (Inr (), if isGlobalModule e ty then addGlobalModule m c2 else c2)))"
| "addDynamicMetadata_upto n ds e tok None scp c = Some (Inr (), c)"
| "addDynamicMetadata_upto n ds e tok (Some a) scp c =
     (let c1 = c\<lparr>dynamicModulesMetadata := (dynamicModulesMetadata c)(tok \<mapsto> a)\<rparr>
      in case addDynamicModules_upto n ds e (d_modules (ds a)) scp c1 of
           None \<Rightarrow> None
         | Some (Inl err, c2) \<Rightarrow> Some (Inl err, c2)
         | Some (Inr u, c2) \<Rightarrow> addDynamicModules_upto n ds e (d_imports (ds a)) scp c2)"
| "addDynamicModules_upto n ds e None scp c = Some (Inr (), c)"
| "addDynamicModules_upto n ds e (Some ms) scp c = addModules_each_upto n ds e ms scp c"
| "addModules_each_upto n ds e [] scp c = Some (Inr (), c)"
| "addModules_each_upto n ds e (r # rs) scp c =
     (case addModule_upto n ds e r scp c of
        None \<Rightarrow> None
      | Some (Inl err, c1) \<Rightarrow> Some (Inl err, c1)
      | Some (Inr u, c1) \<Rightarrow> addModules_each_upto n ds e rs scp c1)"
  by pat_completeness auto
termination
  by (relation "measures
      [\<lambda>x. case x of
          Inl (Inl (n, ds, e, r, scp, c)) \<Rightarrow> n
        | Inl (Inr (n, ds, e, tok, a, scp, c)) \<Rightarrow> n
        | Inr (Inl (n, ds, e, ms, scp, c)) \<Rightarrow> n
        | Inr (Inr (n, ds, e, rs, scp, c)) \<Rightarrow> n,
       \<lambda>x. case x of
          Inl (Inl (n, ds, e, r, scp, c)) \<Rightarrow> 0
        | Inl (Inr (n, ds, e, tok, a, scp, c)) \<Rightarrow> 3
        | Inr (Inl (n, ds, e, ms, scp, c)) \<Rightarrow> 2
        | Inr (Inr (n, ds, e, rs, scp, c)) \<Rightarrow> 1,
       \<lambda>x. case x of
          Inr (Inr (n, ds, e, rs, scp, c)) \<Rightarrow> length rs
        | _ \<Rightarrow> 0]") auto

text \<open>
  The descriptor \<^verbatim>\<open>const d = { module: A, imports: [] }; d.imports.push(d)\<close>, at every
  address of the table.
\<close>

definition self_listing :: descriptors where
  "self_listing = (\<lambda>a.
     \<lparr>d_module = ''A'', d_imports = Some [DescriptorObject 0], d_controllers = None,
      d_providers = None, d_exports = None, d_modules = None\<rparr>)"

section \<open>Properties of registration\<close>

subsection \<open>Registration only adds\<close>

lemma has_iff: "has ms tok \<longleftrightarrow> tok \<in> fst ` set ms"
  by (simp add: has_def map_of_eq_None_iff)

lemma update_fresh: "k \<notin> fst ` set xs \<Longrightarrow> AList.update k v xs = xs @ [(k, v)]"
  by (induction xs) auto

lemma set_entry_fresh: "\<not> has ms tok \<Longrightarrow> set_entry tok m ms = ms @ [(tok, m)]"
  by (simp add: set_entry_def has_iff update_fresh)

lemma has_prefix: "prefix ms ms' \<Longrightarrow> has ms tok \<Longrightarrow> has ms' tok"
  by (auto simp: has_iff prefix_def)

lemma grows_refl: "grows c c"
  by (simp add: grows_def)

lemma grows_trans: "grows c c' \<Longrightarrow> grows c' c'' \<Longrightarrow> grows c c''"
  unfolding grows_def by auto

lemma grows_has: "grows c c' \<Longrightarrow> has (modules c) tok \<Longrightarrow> has (modules c') tok"
  by (auto simp: grows_def intro: has_prefix)

lemma grows_addGlobalModule: "grows c (addGlobalModule m c)"
  by (auto simp: grows_def addGlobalModule_def set_add_def)

lemma grows_registered: "\<not> has (modules c) tok \<Longrightarrow> grows c (registered tok ty scp c)"
  by (simp add: grows_def registered_def set_entry_fresh)

lemma grows_store: "grows c (c\<lparr>dynamicModulesMetadata := d\<rparr>)"
  by (simp add: grows_def)

lemma extractMetadata_isDynamicModule:
  "extractMetadata r =
     (case isDynamicModule r of
        Inl err \<Rightarrow> Inl err
      | Inr dyn \<Rightarrow>
          (case r of
             DynamicModule ty md \<Rightarrow> Inr (ty, Some md)
           | TypeRef ty \<Rightarrow> Inr (ty, None)
           | Undefined \<Rightarrow> Inl TypeError))"
  by (cases r) simp_all

lemma extractMetadata_present:
  "r \<noteq> Undefined \<Longrightarrow> \<exists>ty d. extractMetadata r = Inr (ty, d)"
  by (cases r) auto

lemma addModule_Undefined: "addModule e Undefined scp c = (Inl (InvalidModuleException scp), c)"
  by (simp add: truthy_def)

lemma addModule_has:
  "extractMetadata r = Inr (ty, d) \<Longrightarrow> has (modules c) (create e ty scp d) \<Longrightarrow>
   addModule e r scp c = (Inr (), c)"
  by (cases r) (auto simp: truthy_def)

lemma addModule_fresh:
  "extractMetadata r = Inr (ty, d) \<Longrightarrow> \<not> has (modules c) (create e ty scp d) \<Longrightarrow>
   addModule e r scp c =
     (case addDynamicMetadata e (create e ty scp d) d (scp @ [ty])
             (registered (create e ty scp d) ty scp c) of
        (Inl err, c2) \<Rightarrow> (Inl err, c2)
      | (Inr u, c2) \<Rightarrow>
          (Inr (), if isGlobalModule e ty then addGlobalModule (length (objects c)) c2 else c2))"
  by (cases r) (auto simp: truthy_def registered_def Let_def)

declare addModule.simps [simp del]

lemma addModule_grows:
  "grows c (snd (addModule e r scp c))"
  "grows c (snd (addDynamicMetadata e tok mdo scp c))"
  "grows c (snd (addDynamicModules e mso scp c))"
  "grows c (snd (addModules_each e rs scp c))"
proof (induction e r scp c and e tok mdo scp c and e mso scp c and e rs scp c
    rule: addModule_addDynamicMetadata_addDynamicModules_addModules_each.induct)
  case (1 e r scp c)
  show ?case
  proof (cases "r = Undefined")
    case True
    then show ?thesis by (simp add: addModule_Undefined grows_refl)
  next
    case False
    then obtain ty d where ex: "extractMetadata r = Inr (ty, d)"
      using extractMetadata_present by blast
    show ?thesis
    proof (cases "has (modules c) (create e ty scp d)")
      case True
      with ex show ?thesis by (simp add: addModule_has grows_refl)
    next
      case fresh: False
      let ?c1 = "registered (create e ty scp d) ty scp c"
      have tr: "truthy r" using False by (simp add: truthy_def)
      have "grows ?c1 (snd (addDynamicMetadata e (create e ty scp d) d (scp @ [ty]) ?c1))"
        using "1.IH" [of "(ty, d)" ty d, OF _ ex] tr fresh
        by (simp add: registered_def)
      with grows_registered [OF fresh] 
      have "grows c (snd (addDynamicMetadata e (create e ty scp d) d (scp @ [ty]) ?c1))"
        by (rule grows_trans)
      then show ?thesis
        using ex fresh
        by (auto simp: addModule_fresh split: prod.splits sum.splits
            intro: grows_trans grows_addGlobalModule)
    qed
  qed
next
  case (2 e tok scp c)
  then show ?case by (simp add: grows_refl)
next
  case (3 e tok md scp c)
  then show ?case
    by (auto simp: Let_def split: prod.splits sum.splits
        intro: grows_trans [OF grows_store] grows_trans)
next
  case (4 e scp c)
  then show ?case by (simp add: grows_refl)
next
  case (5 e ms scp c)
  then show ?case by simp
next
  case (6 e scp c)
  then show ?case by (simp add: grows_refl)
next
  case (7 e r rs scp c)
  then show ?case 
    by (auto split: prod.splits sum.splits intro: grows_trans)
qed


lemma grows_length: "grows c c' \<Longrightarrow> length (objects c) \<le> length (objects c')"
  by (auto simp: grows_def prefix_def)

subsection \<open>Tokens and lookups\<close>


lemma update_object_same: "(\<And>x. f x = x) \<Longrightarrow> update_object m f c = c"
  by (cases c) (simp add: update_object_def)

lemma has_get: "has ms tok \<longleftrightarrow> (\<exists>m. get ms tok = Some m)"
  by (simp add: has_def get_def)

lemma ref_token_extract:
  "ref_token e r scp = Some tok \<longleftrightarrow>
   (\<exists>ty d. extractMetadata r = Inr (ty, d) \<and> tok = create e ty scp d)"
  by (cases r) auto

lemma addModule_again:
  "ref_token e r scp = Some tok \<Longrightarrow> has (modules c) tok \<Longrightarrow>
   addModule e r scp c = (Inr (), c)"
  by (auto simp: ref_token_extract addModule_has)

lemma registered_has: "has (modules (registered tok ty scp c)) tok"
  by (simp add: registered_def set_entry_def has_def update_conv')

lemma addModule_modules_fresh:
  assumes "extractMetadata r = Inr (ty, d)" and "\<not> has (modules c) (create e ty scp d)"
  shows "modules (snd (addModule e r scp c)) =
    modules (snd (addDynamicMetadata e (create e ty scp d) d (scp @ [ty])
      (registered (create e ty scp d) ty scp c)))"
  using assms
  by (auto simp: addModule_fresh addGlobalModule_def split: prod.splits sum.splits)

lemma addModule_registers:
  assumes "ref_token e r scp = Some tok"
  shows "has (modules (snd (addModule e r scp c))) tok"
proof (cases "has (modules c) tok")
  case True
  with assms show ?thesis by (simp add: addModule_again)
next
  case False
  from assms obtain ty d where ex: "extractMetadata r = Inr (ty, d)"
    and tok: "tok = create e ty scp d"
    by (auto simp: ref_token_extract)
  have "has (modules (snd (addDynamicMetadata e tok d (scp @ [ty]) (registered tok ty scp c)))) tok"
    by (rule grows_has [OF addModule_grows(2) registered_has])
  with ex tok False show ?thesis
    by (simp add: addModule_modules_fresh)
qed

subsection \<open>Invariants kept by registration\<close>

lemma addModule_preserves:
  assumes reg: "\<And>ty scp d c. Q c \<Longrightarrow> \<not> has (modules c) (create e ty scp d) \<Longrightarrow>
      Q (registered (create e ty scp d) ty scp c)"
    and sto: "\<And>c d. Q c \<Longrightarrow> Q (c\<lparr>dynamicModulesMetadata := d\<rparr>)"
    and glo: "\<And>c m. Q c \<Longrightarrow> m < length (objects c) \<Longrightarrow> Q (addGlobalModule m c)"
  shows "Q c \<Longrightarrow> Q (snd (addModule e r scp c))"
    and "Q c \<Longrightarrow> Q (snd (addDynamicMetadata e tok mdo scp c))"
    and "Q c \<Longrightarrow> Q (snd (addDynamicModules e mso scp c))"
    and "Q c \<Longrightarrow> Q (snd (addModules_each e rs scp c))"
  using reg sto glo
proof (induction e r scp c and e tok mdo scp c and e mso scp c and e rs scp c
    rule: addModule_addDynamicMetadata_addDynamicModules_addModules_each.induct)
  case (1 e r scp c)
  show ?case
  proof (cases "r = Undefined")
    case True
    with "1.prems" show ?thesis by (simp add: addModule_Undefined)
  next
    case False
    then obtain ty d where ex: "extractMetadata r = Inr (ty, d)"
      using extractMetadata_present by blast
    show ?thesis
    proof (cases "has (modules c) (create e ty scp d)")
      case True
      with ex "1.prems" show ?thesis by (simp add: addModule_has)
    next
      case fresh: False
      let ?tok = "create e ty scp d"
      let ?c1 = "registered ?tok ty scp c"
      let ?c2 = "snd (addDynamicMetadata e ?tok d (scp @ [ty]) ?c1)"
      have tr: "truthy r" using False by (simp add: truthy_def)
      have "Q ?c1" using "1.prems"(1) fresh "1.prems"(2) by blast
      then have i2: "Q ?c2"
        using "1.IH" [of "(ty, d)" ty d, OF _ ex] tr fresh "1.prems"(2,3,4)
        by (simp add: registered_def)
      have "length (objects ?c1) \<le> length (objects ?c2)"
        by (rule grows_length) (rule addModule_grows)
      then have "length (objects c) < length (objects ?c2)"
        by (simp add: registered_def)
      with i2 have "Q (addGlobalModule (length (objects c)) ?c2)"
        using "1.prems"(4) by blast
      with i2 show ?thesis
        using ex fresh
        by (auto simp: addModule_fresh split: prod.splits sum.splits)
    qed
  qed
next
  case (3 e tok md scp c)
  then show ?case
    by (auto simp: Let_def split: prod.splits sum.splits)
next
  case (7 e r rs scp c)
  then show ?case 
    by (auto split: prod.splits sum.splits)
qed simp_all


lemma wf_registered:
  "wf_container c \<Longrightarrow> \<not> has (modules c) tok \<Longrightarrow> wf_container (registered tok ty scp c)"
  by (auto simp: wf_container_def registered_def set_entry_fresh has_iff less_Suc_eq)

lemma wf_store: "wf_container c \<Longrightarrow> wf_container (c\<lparr>dynamicModulesMetadata := d\<rparr>)"
  by (simp add: wf_container_def)

lemma wf_addGlobalModule:
  "wf_container c \<Longrightarrow> m < length (objects c) \<Longrightarrow> wf_container (addGlobalModule m c)"
  by (auto simp: wf_container_def addGlobalModule_def set_add_def)

lemma addModule_wf: "wf_container c \<Longrightarrow> wf_container (snd (addModule e r scp c))"
  by (rule addModule_preserves(1) [where Q = wf_container])
    (simp_all add: wf_registered wf_store wf_addGlobalModule)

lemma wf_empty: "wf_container empty_container"
  by (simp add: wf_container_def empty_container_def)

lemma update_object_frame [simp]:
  "modules (update_object m f c) = modules c"
  "globalModules (update_object m f c) = globalModules c"
  "dynamicModulesMetadata (update_object m f c) = dynamicModulesMetadata c"
  "applicationRef (update_object m f c) = applicationRef c"
  "length (objects (update_object m f c)) = length (objects c)"
  by (simp_all add: update_object_def)

lemma update_object_nth:
  "i < length (objects c) \<Longrightarrow>
   objects (update_object m f c) ! i = (if i = m then f (objects c ! m) else objects c ! i)"
  by (simp add: update_object_def nth_list_update)

lemma Module_ops_frame [simp]:
  "metatype (Module_addRelatedModule other x) = metatype x"
  "scope (Module_addRelatedModule other x) = scope x"
  "metatype (snd (Module_addComponent a x)) = metatype x"
  "scope (snd (Module_addComponent a x)) = scope x"
  "relatedModules (snd (Module_addComponent a x)) = relatedModules x"
  "metatype (Module_addInjectable a x) = metatype x"
  "scope (Module_addInjectable a x) = scope x"
  "relatedModules (Module_addInjectable a x) = relatedModules x"
  "metatype (Module_addExportedComponent a x) = metatype x"
  "scope (Module_addExportedComponent a x) = scope x"
  "relatedModules (Module_addExportedComponent a x) = relatedModules x"
  "metatype (Module_addRoute a x) = metatype x"
  "scope (Module_addRoute a x) = scope x"
  "relatedModules (Module_addRoute a x) = relatedModules x"
  "metatype (Module_replace a b x) = metatype x"
  "scope (Module_replace a b x) = scope x"
  "relatedModules (Module_replace a b x) = relatedModules x"
  by (simp_all add: Module_addRelatedModule_def Module_addComponent_def
      Module_addInjectable_def Module_addExportedComponent_def Module_addRoute_def
      Module_replace_def split: option.splits)

lemma set_relatedModules_add [simp]:
  "set (relatedModules (Module_addRelatedModule other x)) =
     set (relatedModules x) \<union> set_option other"
  by (auto simp: Module_addRelatedModule_def set_add_def split: option.splits)

lemma update_object_out_of_range:
  "\<not> m < length (objects c) \<Longrightarrow> update_object m f c = c"
  by (cases c) (simp add: update_object_def not_less list_update_beyond)

lemma get_Some_in: "get ms tok = Some m \<Longrightarrow> (tok, m) \<in> set ms"
  by (simp add: get_def map_of_SomeD)

lemma wf_get_range:
  "wf_container c \<Longrightarrow> get (modules c) tok = Some m \<Longrightarrow> m < length (objects c)"
  by (force simp: wf_container_def dest: get_Some_in)


subsection \<open>The registry invariant\<close>

lemma ri_empty: "registry_inv e empty_container"
  by (simp add: registry_inv_def wf_container_def tokens_consistent_def empty_container_def)

lemma ri_store: "registry_inv e (c\<lparr>dynamicModulesMetadata := d\<rparr>) = registry_inv e c"
  by (simp add: registry_inv_def wf_container_def tokens_consistent_def)

lemma ri_setApplicationRef: "registry_inv e (setApplicationRef a c) = registry_inv e c"
  by (simp add: registry_inv_def wf_container_def tokens_consistent_def setApplicationRef_def)

lemma ri_registered:
  assumes "registry_inv e c" and fresh: "\<not> has (modules c) (create e ty scp d)"
  shows "registry_inv e (registered (create e ty scp d) ty scp c)"
proof -
  let ?c1 = "registered (create e ty scp d) ty scp c"
  have ms: "modules ?c1 = modules c @ [(create e ty scp d, length (objects c))]"
    and os: "objects ?c1 = objects c @ [new_Module ty scp]"
    using fresh by (simp_all add: registered_def set_entry_fresh)
  from assms have wf: "wf_container c" and tc: "tokens_consistent e c"
    by (simp_all add: registry_inv_def)
  have "wf_container ?c1" using wf fresh by (rule wf_registered)
  moreover have "tokens_consistent e ?c1"
    unfolding tokens_consistent_def ms os
  proof
    fix p assume "p \<in> set (modules c @ [(create e ty scp d, length (objects c))])"
    then consider "p \<in> set (modules c)" | "p = (create e ty scp d, length (objects c))"
      by auto
    then show "\<exists>d'. fst p =
        create e (metatype ((objects c @ [new_Module ty scp]) ! snd p))
          (scope ((objects c @ [new_Module ty scp]) ! snd p)) d'"
    proof cases
      case 1
      then have "snd p < length (objects c)"
        using wf by (auto simp: wf_container_def)
      then show ?thesis
        using tc 1 by (auto simp: tokens_consistent_def nth_append)
    next
      case 2
      then show ?thesis by (auto simp: new_Module_def)
    qed
  qed
  ultimately show ?thesis by (simp add: registry_inv_def)
qed

lemma ri_addGlobalModule:
  "registry_inv e c \<Longrightarrow> m < length (objects c) \<Longrightarrow> registry_inv e (addGlobalModule m c)"
  by (auto simp: registry_inv_def wf_container_def tokens_consistent_def
      addGlobalModule_def set_add_def)

lemma addModule_ri:
  "registry_inv e c \<Longrightarrow> registry_inv e (snd (addModule e r scp c))"
  by (rule addModule_preserves(1) [where Q = "registry_inv e"])
    (simp_all add: ri_registered ri_store ri_addGlobalModule)

lemma addDynamicMetadata_ri:
  "registry_inv e c \<Longrightarrow> registry_inv e (snd (addDynamicMetadata e tok mdo scp c))"
  by (rule addModule_preserves(2) [where Q = "registry_inv e"])
    (simp_all add: ri_registered ri_store ri_addGlobalModule)

lemma addDynamicModules_ri:
  "registry_inv e c \<Longrightarrow> registry_inv e (snd (addDynamicModules e mso scp c))"
  by (rule addModule_preserves(3) [where Q = "registry_inv e"])
    (simp_all add: ri_registered ri_store ri_addGlobalModule)

lemma ri_update_object:
  assumes "registry_inv e c"
    and "\<And>x. metatype (f x) = metatype x"
    and "\<And>x. scope (f x) = scope x"
  shows "registry_inv e (update_object m f c)"
proof -
  from assms(1) have wf: "wf_container c" and tc: "tokens_consistent e c"
    by (simp_all add: registry_inv_def)
  have "wf_container (update_object m f c)"
    using wf by (simp add: wf_container_def)
  moreover have "tokens_consistent e (update_object m f c)"
    unfolding tokens_consistent_def
  proof
    fix p assume p: "p \<in> set (modules (update_object m f c))"
    then have "snd p < length (objects c)"
      using wf by (auto simp: wf_container_def)
    then show "\<exists>d. fst p =
        create e (metatype (objects (update_object m f c) ! snd p))
          (scope (objects (update_object m f c) ! snd p)) d"
      using tc p assms(2,3) by (auto simp: tokens_consistent_def update_object_nth)
  qed
  ultimately show ?thesis by (simp add: registry_inv_def)
qed

lemma ri_fold_update_object:
  assumes "\<And>x. metatype (f x) = metatype x" and "\<And>x. scope (f x) = scope x"
  shows "registry_inv e c \<Longrightarrow> registry_inv e (fold (\<lambda>m. update_object m f) ms c)"
  by (induction ms arbitrary: c) (simp_all add: ri_update_object assms)

lemma ri_replace: "registry_inv e c \<Longrightarrow> registry_inv e (replace x y c)"
  unfolding replace_def by (rule ri_fold_update_object) simp_all

lemma ri_clear: "registry_inv e c \<Longrightarrow> registry_inv e (clear c)"
  by (simp add: registry_inv_def wf_container_def tokens_consistent_def clear_def)

lemma ri_bindGlobalModuleToModule:
  "registry_inv e c \<Longrightarrow> registry_inv e (bindGlobalModuleToModule m g c)"
  by (simp add: bindGlobalModuleToModule_def ri_update_object)

lemma ri_fold_bind:
  "registry_inv e c \<Longrightarrow> registry_inv e (fold (\<lambda>g. bindGlobalModuleToModule m g) gs c)"
  by (induction gs arbitrary: c) (simp_all add: ri_bindGlobalModuleToModule)

lemma ri_bindGlobalsToRelatedModules:
  "registry_inv e c \<Longrightarrow> registry_inv e (bindGlobalsToRelatedModules m c)"
  by (simp add: bindGlobalsToRelatedModules_def ri_fold_bind)

lemma ri_fold_bindGlobals:
  "registry_inv e c \<Longrightarrow> registry_inv e (fold (\<lambda>m. bindGlobalsToRelatedModules m) ms c)"
  by (induction ms arbitrary: c) (simp_all add: ri_bindGlobalsToRelatedModules)

lemma ri_bindGlobalScope: "registry_inv e c \<Longrightarrow> registry_inv e (bindGlobalScope c)"
  by (simp add: bindGlobalScope_def ri_fold_bindGlobals)

lemma ri_addComponent: "registry_inv e c \<Longrightarrow> registry_inv e (snd (addComponent x tok c))"
  by (auto simp: addComponent_def ri_update_object split: option.splits)

lemma ri_addInjectable: "registry_inv e c \<Longrightarrow> registry_inv e (snd (addInjectable x tok c))"
  by (auto simp: addInjectable_def ri_update_object split: option.splits)

lemma ri_addExportedComponent:
  "registry_inv e c \<Longrightarrow> registry_inv e (snd (addExportedComponent x tok c))"
  by (auto simp: addExportedComponent_def ri_update_object split: option.splits)

lemma ri_addController: "registry_inv e c \<Longrightarrow> registry_inv e (snd (addController x tok c))"
  by (auto simp: addController_def ri_update_object split: option.splits)

lemma ri_addRelatedModule:
  "registry_inv e c \<Longrightarrow> registry_inv e (snd (addRelatedModule e r tok c))"
  by (auto simp: addRelatedModule_def Let_def ri_update_object split: option.splits sum.splits)

lemma reachable_registry_inv: "reachable_where P e c \<Longrightarrow> registry_inv e c"
  by (induction rule: reachable_where.induct)
    (simp_all add: ri_empty ri_setApplicationRef addModule_ri ri_addRelatedModule
      ri_addComponent ri_addInjectable ri_addExportedComponent ri_addController
      ri_clear ri_replace ri_bindGlobalScope ri_bindGlobalsToRelatedModules
      ri_bindGlobalModuleToModule addDynamicMetadata_ri addDynamicModules_ri
      ri_addGlobalModule)

subsection \<open>Records that relate to themselves\<close>

lemma ns_empty: "no_self_relation empty_container"
  by (simp add: no_self_relation_def empty_container_def)

lemma ns_store: "no_self_relation (c\<lparr>dynamicModulesMetadata := d\<rparr>) = no_self_relation c"
  by (simp add: no_self_relation_def)

lemma ns_setApplicationRef: "no_self_relation (setApplicationRef a c) = no_self_relation c"
  by (simp add: no_self_relation_def setApplicationRef_def)

lemma ns_registered: "no_self_relation c \<Longrightarrow> no_self_relation (registered tok ty scp c)"
  by (auto simp: no_self_relation_def registered_def nth_append new_Module_def less_Suc_eq)

lemma ns_addGlobalModule: "no_self_relation (addGlobalModule m c) = no_self_relation c"
  by (simp add: no_self_relation_def addGlobalModule_def)

lemma addModule_ns:
  "no_self_relation c \<Longrightarrow> no_self_relation (snd (addModule e r scp c))"
  by (rule addModule_preserves(1) [where Q = no_self_relation])
    (simp_all add: ns_registered ns_store ns_addGlobalModule)

lemma addDynamicMetadata_ns:
  "no_self_relation c \<Longrightarrow> no_self_relation (snd (addDynamicMetadata e tok mdo scp c))"
  by (rule addModule_preserves(2) [where Q = no_self_relation])
    (simp_all add: ns_registered ns_store ns_addGlobalModule)

lemma addDynamicModules_ns:
  "no_self_relation c \<Longrightarrow> no_self_relation (snd (addDynamicModules e mso scp c))"
  by (rule addModule_preserves(3) [where Q = no_self_relation])
    (simp_all add: ns_registered ns_store ns_addGlobalModule)

lemma ns_update_object:
  assumes "no_self_relation c"
    and "m < length (objects c) \<Longrightarrow> m \<notin> set (relatedModules (f (objects c ! m)))"
  shows "no_self_relation (update_object m f c)"
  using assms by (auto simp: no_self_relation_def update_object_nth)

lemma ns_update_keeping:
  assumes "no_self_relation c" and "\<And>x. relatedModules (f x) = relatedModules x"
  shows "no_self_relation (update_object m f c)"
  using assms by (auto simp: no_self_relation_def update_object_nth)

lemma ns_fold_update_keeping:
  assumes "\<And>x. relatedModules (f x) = relatedModules x"
  shows "no_self_relation c \<Longrightarrow> no_self_relation (fold (\<lambda>m. update_object m f) ms c)"
  by (induction ms arbitrary: c) (simp_all add: ns_update_keeping assms)

lemma ns_replace: "no_self_relation c \<Longrightarrow> no_self_relation (replace x y c)"
  unfolding replace_def by (rule ns_fold_update_keeping) simp_all

lemma ns_clear: "no_self_relation (clear c) = no_self_relation c"
  by (simp add: no_self_relation_def clear_def)

lemma ns_bindGlobalModuleToModule:
  "no_self_relation c \<Longrightarrow> no_self_relation (bindGlobalModuleToModule m g c)"
  unfolding bindGlobalModuleToModule_def
  by (auto simp: no_self_relation_def update_object_nth)

lemma ns_fold_bind:
  "no_self_relation c \<Longrightarrow> no_self_relation (fold (\<lambda>g. bindGlobalModuleToModule m g) gs c)"
  by (induction gs arbitrary: c) (simp_all add: ns_bindGlobalModuleToModule)

lemma ns_bindGlobalsToRelatedModules:
  "no_self_relation c \<Longrightarrow> no_self_relation (bindGlobalsToRelatedModules m c)"
  by (simp add: bindGlobalsToRelatedModules_def ns_fold_bind)

lemma ns_fold_bindGlobals:
  "no_self_relation c \<Longrightarrow> no_self_relation (fold (\<lambda>m. bindGlobalsToRelatedModules m) ms c)"
  by (induction ms arbitrary: c) (simp_all add: ns_bindGlobalsToRelatedModules)

lemma ns_bindGlobalScope: "no_self_relation c \<Longrightarrow> no_self_relation (bindGlobalScope c)"
  by (simp add: bindGlobalScope_def ns_fold_bindGlobals)

lemma ns_addComponent: "no_self_relation c \<Longrightarrow> no_self_relation (snd (addComponent x tok c))"
  by (auto simp: addComponent_def ns_update_keeping split: option.splits)

lemma ns_addInjectable: "no_self_relation c \<Longrightarrow> no_self_relation (snd (addInjectable x tok c))"
  by (auto simp: addInjectable_def ns_update_keeping split: option.splits)

lemma ns_addExportedComponent:
  "no_self_relation c \<Longrightarrow> no_self_relation (snd (addExportedComponent x tok c))"
  by (auto simp: addExportedComponent_def ns_update_keeping split: option.splits)

lemma ns_addController: "no_self_relation c \<Longrightarrow> no_self_relation (snd (addController x tok c))"
  by (auto simp: addController_def ns_update_keeping split: option.splits)

lemma ns_addRelatedModule:
  assumes ns: "no_self_relation c" and nr: "\<not> resolves_to_owner e r tok c"
  shows "no_self_relation (snd (addRelatedModule e r tok c))"
proof (cases "get (modules c) tok")
  case None
  with ns show ?thesis by (simp add: addRelatedModule_def has_def get_def)
next
  case (Some m)
  show ?thesis
  proof (cases "extractMetadata r")
    case (Inl err)
    with ns Some show ?thesis by (simp add: addRelatedModule_def Let_def)
  next
    case (Inr b)
    obtain ty d where b: "b = (ty, d)" by (cases b)
    let ?rt = "create e ty (scope (objects c ! m) @ [metatype (objects c ! m)]) d"
    have rt: "ref_token e r (scope (objects c ! m) @ [metatype (objects c ! m)]) = Some ?rt"
      using Inr b by (auto simp: ref_token_extract)
    with nr Some have "get (modules c) ?rt \<noteq> Some m"
      by (simp add: resolves_to_owner_def)
    then have "m < length (objects c) \<Longrightarrow> m \<notin> set (relatedModules
        (Module_addRelatedModule (get (modules c) ?rt) (objects c ! m)))"
      using ns by (cases "get (modules c) ?rt") (auto simp: no_self_relation_def)
    with ns have "no_self_relation
        (update_object m (Module_addRelatedModule (get (modules c) ?rt)) c)"
      by (rule ns_update_object)
    with ns Some Inr b show ?thesis
      by (simp add: addRelatedModule_def Let_def)
  qed
qed

lemma reachable_no_self:
  "reachable_where (\<lambda>r tok c. \<not> resolves_to_owner e r tok c) e c \<Longrightarrow> no_self_relation c"
  by (induction rule: reachable_where.induct)
    (simp_all add: ns_empty ns_setApplicationRef addModule_ns ns_addRelatedModule
      ns_addComponent ns_addInjectable ns_addExportedComponent ns_addController
      ns_clear ns_replace ns_bindGlobalScope ns_bindGlobalsToRelatedModules
      ns_bindGlobalModuleToModule addDynamicMetadata_ns addDynamicModules_ns
      ns_addGlobalModule)

lemma scope_sensitive_not_owner:
  assumes "registry_inv e c" and "scope_sensitive (create e)"
  shows "\<not> resolves_to_owner e r tok c"
proof
  assume "resolves_to_owner e r tok c"
  then obtain m rt where m: "get (modules c) tok = Some m"
    and rt: "ref_token e r (scope (objects c ! m) @ [metatype (objects c ! m)]) = Some rt"
    and hit: "get (modules c) rt = Some m"
    by (auto simp: resolves_to_owner_def split: option.splits)
  from hit have "(rt, m) \<in> set (modules c)" by (rule get_Some_in)
  with assms(1) obtain d where
    "rt = create e (metatype (objects c ! m)) (scope (objects c ! m)) d"
    by (force simp: registry_inv_def tokens_consistent_def)
  moreover from rt obtain ty d' where
    "rt = create e ty (scope (objects c ! m) @ [metatype (objects c ! m)]) d'"
    by (auto simp: ref_token_extract)
  ultimately have "scope (objects c ! m) @ [metatype (objects c ! m)] = scope (objects c ! m)"
    using assms(2) unfolding scope_sensitive_def by metis
  then show False by simp
qed

lemma reachable_scope_sensitive:
  assumes "scope_sensitive (create e)"
  shows "reachable e c \<Longrightarrow> reachable_where (\<lambda>r tok c. \<not> resolves_to_owner e r tok c) e c"
proof (induction rule: reachable_where.induct)
  case (r_addRelatedModule c r tok)
  from r_addRelatedModule.hyps(1) have "registry_inv e c" by (rule reachable_registry_inv)
  then have "\<not> resolves_to_owner e r tok c" using assms by (rule scope_sensitive_not_owner)
  with r_addRelatedModule.IH show ?case by (rule reachable_where.r_addRelatedModule)
qed (auto intro: reachable_where.intros)

lemma no_self_scope_sensitive:
  "scope_sensitive (create e) \<Longrightarrow> reachable e c \<Longrightarrow> no_self_relation c"
  by (rule reachable_no_self) (rule reachable_scope_sensitive)

subsection \<open>The instance of the collaborators\<close>





lemmas eval_simps =
  addModule.simps truthy_def example_env_def path_token_def has_def get_def
  empty_container_def set_entry_def Let_def isGlobalModule_def addGlobalModule_def
  set_add_def example_dyn_def

lemma example_base_eq:
  "example_base =
     \<lparr>globalModules = [1],
      modules = [('':Root'', 0), ('',.R.o.o.t/:GlobalCfg'', 1)],
      dynamicModulesMetadata = Map.empty,
      applicationRef = None,
      objects = [new_Module ''Root'' [], new_Module ''GlobalCfg'' [''Root'']]\<rparr>"
  by (simp add: example_base_def eval_simps)

lemma example_container_eq:
  "example_container =
     \<lparr>globalModules = [1],
      modules = [('':Root'', 0), ('',.R.o.o.t/:GlobalCfg'', 1), ('',.R.o.o.t/:Dyn+'', 2),
                 ('',.R.o.o.t/,.D.y.n/:Sub'', 3)],
      dynamicModulesMetadata =
        [('',.R.o.o.t/:Dyn+'') \<mapsto> Metadata (Some [TypeRef ''Sub'']) None None None None],
      applicationRef = None,
      objects = [new_Module ''Root'' [], new_Module ''GlobalCfg'' [''Root''],
                 new_Module ''Dyn'' [''Root''], new_Module ''Sub'' [''Root'', ''Dyn'']]\<rparr>"
  by (simp add: example_container_def example_base_eq eval_simps)

lemma wf_example_container: "wf_container example_container"
  unfolding example_container_def example_base_def
  by (intro addModule_wf wf_empty)

lemma example_bound:
  "bindGlobalScope example_container =
     example_container\<lparr>objects :=
       [(new_Module ''Root'' [])\<lparr>relatedModules := [1]\<rparr>,
        new_Module ''GlobalCfg'' [''Root''],
        (new_Module ''Dyn'' [''Root''])\<lparr>relatedModules := [1]\<rparr>,
        (new_Module ''Sub'' [''Root'', ''Dyn''])\<lparr>relatedModules := [1]\<rparr>]\<rparr>"
  by (simp add: example_container_eq bindGlobalScope_def bindGlobalsToRelatedModules_def
      bindGlobalModuleToModule_def update_object_def Module_addRelatedModule_def set_add_def
      new_Module_def)

lemma reachable_example:
  "reachable_where P example_env (bindGlobalScope example_container)"
  unfolding example_container_def example_base_def
  by (intro reachable_where.intros)

lemma related_example_eq:
  "related_example =
     \<lparr>globalModules = [1],
      modules = [(''A'', 0), (''GB'', 1)],
      dynamicModulesMetadata = Map.empty,
      applicationRef = None,
      objects = [(new_Module ''A'' [])\<lparr>relatedModules := [1]\<rparr>, new_Module ''GB'' [''A'']]\<rparr>"
  by (simp add: related_example_def addRelatedModule_def update_object_def
      Module_addRelatedModule_def new_Module_def name_env_def addModule.simps truthy_def
      has_def get_def empty_container_def set_entry_def Let_def isGlobalModule_def
      addGlobalModule_def set_add_def)

lemma related_example_bound:
  "bindGlobalScope related_example = related_example"
  by (simp add: related_example_eq bindGlobalScope_def bindGlobalsToRelatedModules_def
      bindGlobalModuleToModule_def update_object_def Module_addRelatedModule_def set_add_def
      new_Module_def)

subsection \<open>Descriptors that list themselves\<close>



text \<open>
  With tokens that are the name of the type, the nested call computes the token of the
  parent and the has-token check ends the recursion: one record is registered.
\<close>

lemma self_listing_name_tokens:
  "addModule_upto (Suc (Suc 0)) self_listing name_env (DescriptorObject 0) [] empty_container =
     Some (Inr (),
       \<lparr>globalModules = [], modules = [(''A'', 0)], dynamicModulesMetadata = [''A'' \<mapsto> 0],
        applicationRef = None, objects = [new_Module ''A'' []]\<rparr>)"
  by (simp add: self_listing_def name_env_def empty_container_def Let_def has_def set_entry_def
      isGlobalModule_def)

section \<open>The claims\<close>

subsection \<open>Idempotent registration\<close>

lemma records_for_one:
  "distinct (map fst (modules c)) \<Longrightarrow> has (modules c) tok \<Longrightarrow> records_for c tok = 1"
proof -
  have "distinct (map fst ms) \<Longrightarrow> tok \<in> fst ` set ms \<Longrightarrow>
      length (filter (\<lambda>p. fst p = tok) ms) = 1" for ms :: modules_container
  proof (induction ms)
    case Nil
    then show ?case by simp
  next
    case (Cons p ms)
    show ?case
    proof (cases "fst p = tok")
      case True
      with Cons.prems have "tok \<notin> fst ` set ms" by auto
      then have "\<forall>q \<in> set ms. fst q \<noteq> tok" by (auto simp: image_iff)
      then have "filter (\<lambda>p. fst p = tok) ms = []"
        by (simp add: filter_empty_conv)
      with True show ?thesis by simp
    next
      case False
      with Cons show ?thesis by auto
    qed
  qed
  then show "distinct (map fst (modules c)) \<Longrightarrow> has (modules c) tok \<Longrightarrow> records_for c tok = 1"
    by (simp add: records_for_def has_iff)
qed

text \<open>
  Claim C1. Registration is idempotent. After \<^verbatim>\<open>addModule(moduleRef, scope)\<close> on a well-formed
  container, the registry holds exactly one Module Record for the token of the call, and
  a second call with the same reference and scope, or with any reference and scope of
  the same computed token, returns normally and leaves the whole container (registry,
  dynamic metadata store, global-module set, records) as the first call left it. For an
  absent reference both calls throw and the second changes nothing either.
\<close>

theorem addModule_idempotent:
  assumes "wf_container c"
  shows "snd (addModule e r scp (snd (addModule e r scp c))) = snd (addModule e r scp c) \<and>
    (\<forall>tok. ref_token e r scp = Some tok \<longrightarrow>
       records_for (snd (addModule e r scp c)) tok = 1 \<and>
       (\<forall>r' scp'. ref_token e r' scp' = Some tok \<longrightarrow>
          addModule e r' scp' (snd (addModule e r scp c)) =
            (Inr (), snd (addModule e r scp c))))"
proof (cases "ref_token e r scp")
  case None
  then have "r = Undefined" by (cases r) auto
  with None show ?thesis by (simp add: addModule_Undefined)
next
  case (Some tok)
  let ?c1 = "snd (addModule e r scp c)"
  have h: "has (modules ?c1) tok" using Some by (rule addModule_registers)
  have "wf_container ?c1" using assms by (rule addModule_wf)
  then have one: "records_for ?c1 tok = 1"
    using h by (simp add: records_for_one wf_container_def)
  have again: "addModule e r' scp' ?c1 = (Inr (), ?c1)"
    if "ref_token e r' scp' = Some tok" for r' scp'
    using that h by (rule addModule_again)
  from again [OF Some] have "snd (addModule e r scp ?c1) = ?c1" by simp
  with Some one again show ?thesis by simp
qed

theorem addModule_idempotent_witness:
  "wf_container empty_container \<and>
   records_for (snd (addModule example_env
       (DynamicModule ''Dyn'' (Metadata (Some [TypeRef ''Sub'']) None None None None)) []
       empty_container)) '':Dyn+'' = 1 \<and>
   addModule example_env
     (DynamicModule ''Dyn'' (Metadata (Some [TypeRef ''Sub'']) None None None None)) []
     (snd (addModule example_env
       (DynamicModule ''Dyn'' (Metadata (Some [TypeRef ''Sub'']) None None None None)) []
       empty_container)) =
   (Inr (), snd (addModule example_env
       (DynamicModule ''Dyn'' (Metadata (Some [TypeRef ''Sub'']) None None None None)) []
       empty_container))"
proof -
  let ?r = "DynamicModule ''Dyn'' (Metadata (Some [TypeRef ''Sub'']) None None None None)"
  have t: "ref_token example_env ?r [] = Some '':Dyn+''"
    by (simp add: example_env_def path_token_def)
  from addModule_idempotent [OF wf_empty, of example_env ?r "[]"] t
  have "records_for (snd (addModule example_env ?r [] empty_container)) '':Dyn+'' = 1"
    and "addModule example_env ?r [] (snd (addModule example_env ?r [] empty_container)) =
      (Inr (), snd (addModule example_env ?r [] empty_container))"
    by blast+
  with wf_empty show ?thesis by simp
qed


subsection \<open>Order of insertion\<close>




subsection \<open>Absent module references\<close>

lemma prefix_snoc_neq: "prefix (scp @ [ty]) s \<Longrightarrow> prefix scp s \<and> s \<noteq> scp"
  by (auto simp: prefix_def)

lemma mentions_undefined_md_sel:
  "mentions_undefined_md md =
     ((case md_modules md of None \<Rightarrow> False | Some ms \<Rightarrow> mentions_undefined_list ms) \<or>
      (case md_imports md of None \<Rightarrow> False | Some ms \<Rightarrow> mentions_undefined_list ms))"
  by (cases md) simp

lemma addModule_errors:
  "fst (addModule e r scp c) = Inl err \<Longrightarrow>
     \<exists>s. err = InvalidModuleException s \<and> prefix scp s \<and> mentions_undefined r \<and>
         (r \<noteq> Undefined \<longrightarrow> s \<noteq> scp)"
  "fst (addDynamicMetadata e tok mdo scp c) = Inl err \<Longrightarrow>
     \<exists>s md. err = InvalidModuleException s \<and> prefix scp s \<and> mdo = Some md \<and>
         mentions_undefined_md md"
  "fst (addDynamicModules e mso scp c) = Inl err \<Longrightarrow>
     \<exists>s ms. err = InvalidModuleException s \<and> prefix scp s \<and> mso = Some ms \<and>
         mentions_undefined_list ms"
  "fst (addModules_each e rs scp c) = Inl err \<Longrightarrow>
     \<exists>s. err = InvalidModuleException s \<and> prefix scp s \<and> mentions_undefined_list rs"
proof (induction e r scp c and e tok mdo scp c and e mso scp c and e rs scp c
    rule: addModule_addDynamicMetadata_addDynamicModules_addModules_each.induct)
  case (1 e r scp c)
  show ?case
  proof (cases "r = Undefined")
    case True
    with "1.prems" show ?thesis by (auto simp: addModule_Undefined)
  next
    case False
    then obtain ty d where ex: "extractMetadata r = Inr (ty, d)"
      using extractMetadata_present by blast
    show ?thesis
    proof (cases "has (modules c) (create e ty scp d)")
      case True
      with ex "1.prems" show ?thesis by (simp add: addModule_has)
    next
      case fresh: False
      let ?tok = "create e ty scp d"
      let ?c1 = "registered ?tok ty scp c"
      have tr: "truthy r" using False by (simp add: truthy_def)
      from "1.prems" have "fst (addDynamicMetadata e ?tok d (scp @ [ty]) ?c1) = Inl err"
        using ex fresh by (auto simp: addModule_fresh split: prod.splits sum.splits)
      moreover have "fst (addDynamicMetadata e ?tok d (scp @ [ty]) ?c1) = Inl err \<Longrightarrow>
          \<exists>s md. err = InvalidModuleException s \<and> prefix (scp @ [ty]) s \<and> d = Some md \<and>
            mentions_undefined_md md"
        unfolding registered_def
        using "1.IH" [OF _ ex refl refl _ refl refl] tr fresh by simp
      ultimately obtain s md where "err = InvalidModuleException s" "prefix (scp @ [ty]) s"
        "d = Some md" "mentions_undefined_md md"
        by blast
      moreover have "r = DynamicModule ty md"
        using ex \<open>d = Some md\<close> by (cases r) auto
      ultimately show ?thesis
        using prefix_snoc_neq [of scp ty s] by auto
    qed
  qed
next
  case (3 e tok md scp c)
  let ?c1 = "c\<lparr>dynamicModulesMetadata := (dynamicModulesMetadata c)(tok \<mapsto> md)\<rparr>"
  obtain r1 c2 where first: "addDynamicModules e (md_modules md) scp ?c1 = (r1, c2)"
    by force
  show ?case
  proof (cases r1)
    case (Inl err1)
    with first "3.prems" have "fst (addDynamicModules e (md_modules md) scp ?c1) = Inl err"
      by (simp add: Let_def)
    from "3.IH"(1) [OF refl this] show ?thesis
      by (auto simp: mentions_undefined_md_sel)
  next
    case (Inr u)
    with first "3.prems" have "fst (addDynamicModules e (md_imports md) scp c2) = Inl err"
      by (simp add: Let_def)
    from "3.IH"(2) [OF refl first [symmetric] Inr this] show ?thesis
      by (auto simp: mentions_undefined_md_sel)
  qed
next
  case (7 e r rs scp c)
  then show ?case 
    by (auto split: prod.splits sum.splits)
qed simp_all


text \<open>
  A descriptor that is present and lists an absent reference: \<^verbatim>\<open>addModule\<close> throws the
  InvalidModuleException of the nested call, after the record of the descriptor has been
  created.
\<close>

theorem addModule_invalid_counterexample:
  "fst (addModule example_env
          (DynamicModule ''A'' (Metadata (Some [Undefined]) None None None None)) []
          empty_container) = Inl (InvalidModuleException [''A'']) \<and>
   DynamicModule ''A'' (Metadata (Some [Undefined]) None None None None) \<noteq> Undefined \<and>
   modules (snd (addModule example_env
          (DynamicModule ''A'' (Metadata (Some [Undefined]) None None None None)) []
          empty_container)) = [('':A+'', 0)] \<and>
   modules empty_container = []"
  by (simp add: addModule.simps truthy_def example_env_def path_token_def has_def
      empty_container_def set_entry_def Let_def)

text \<open>
  Claim C4, amended. \<^verbatim>\<open>addModule(moduleRef, scope)\<close> fails with the InvalidModuleException
  that carries the scope of the call exactly when \<open>moduleRef\<close> is absent; the error is
  the result of the call itself, and in that case no Module Record is created and the
  container is unchanged.
\<close>

theorem addModule_invalid:
  "addModule e Undefined scp c = (Inl (InvalidModuleException scp), c) \<and>
   (fst (addModule e r scp c) = Inl (InvalidModuleException scp) \<longleftrightarrow> r = Undefined)"
proof
  show "addModule e Undefined scp c = (Inl (InvalidModuleException scp), c)"
    by (rule addModule_Undefined)
  show "fst (addModule e r scp c) = Inl (InvalidModuleException scp) \<longleftrightarrow> r = Undefined"
    using addModule_errors(1) [of e r scp c "InvalidModuleException scp"]
    by (auto simp: addModule_Undefined)
qed

theorem addModule_invalid_witness:
  "addModule example_env Undefined [''R''] empty_container =
     (Inl (InvalidModuleException [''R'']), empty_container) \<and>
   DynamicModule ''A'' (Metadata (Some [Undefined]) None None None None) \<noteq> Undefined \<and>
   fst (addModule example_env
          (DynamicModule ''A'' (Metadata (Some [Undefined]) None None None None)) [''R'']
          empty_container) \<noteq> Inl (InvalidModuleException [''R''])"
  using addModule_invalid [of example_env "[''R'']" empty_container
      "DynamicModule ''A'' (Metadata (Some [Undefined]) None None None None)"]
  by simp

subsection \<open>Related modules\<close>

text \<open>
  With a registered owner and an absent related reference, \<^verbatim>\<open>extractMetadata\<close> reads a
  property of \<^verbatim>\<open>undefined\<close>.
\<close>

theorem addRelatedModule_counterexample:
  "fst (addRelatedModule example_env Undefined '':A''
          (snd (addModule example_env (TypeRef ''A'') [] empty_container))) = Inl TypeError"
  by (simp add: addRelatedModule_def addModule.simps truthy_def example_env_def path_token_def
      has_def get_def empty_container_def set_entry_def Let_def isGlobalModule_def)

text \<open>
  Claim C6, amended. \<^verbatim>\<open>addRelatedModule(relatedModuleRef, ownerToken)\<close> raises no error
  when \<open>relatedModuleRef\<close> is present. If \<open>ownerToken\<close> is not registered it returns
  without a change. Otherwise it computes the token of the related reference as
  \<^verbatim>\<open>addModule\<close> does (\<open>ref_token\<close>), in the scope of the owner extended by the type of
  the owner, looks the token up and passes the result to \<^verbatim>\<open>addRelatedModule\<close> of the record
  of the owner. A miss is tolerated: no error, and what the record of the owner is passed
  is the \<^verbatim>\<open>undefined\<close> result of the lookup, nothing of substance. The statement does not
  depend on what the Module Record does with \<^verbatim>\<open>undefined\<close>.
\<close>

theorem addRelatedModule_tolerant:
  "(\<not> has (modules c) tok \<longrightarrow> addRelatedModule e r tok c = (Inr (), c)) \<and>
   (r \<noteq> Undefined \<longrightarrow> fst (addRelatedModule e r tok c) = Inr ()) \<and>
   (\<forall>m rt. get (modules c) tok = Some m \<and>
       ref_token e r (scope (objects c ! m) @ [metatype (objects c ! m)]) = Some rt \<longrightarrow>
       addRelatedModule e r tok c =
         (Inr (), update_object m (Module_addRelatedModule (get (modules c) rt)) c) \<and>
       (get (modules c) rt = None \<longrightarrow>
          addRelatedModule e r tok c =
            (Inr (), update_object m (Module_addRelatedModule None) c)))"
proof (intro conjI allI impI)
  show "addRelatedModule e r tok c = (Inr (), c)" if "\<not> has (modules c) tok"
    using that by (simp add: addRelatedModule_def)
  show "fst (addRelatedModule e r tok c) = Inr ()" if "r \<noteq> Undefined"
    using that
    by (cases r) (auto simp: addRelatedModule_def Let_def has_get split: option.splits)
next
  fix m rt
  assume a: "get (modules c) tok = Some m \<and>
    ref_token e r (scope (objects c ! m) @ [metatype (objects c ! m)]) = Some rt"
  then have h: "has (modules c) tok" by (auto simp: has_get)
  from a h show eq: "addRelatedModule e r tok c =
      (Inr (), update_object m (Module_addRelatedModule (get (modules c) rt)) c)"
    by (cases r) (auto simp: addRelatedModule_def Let_def)
  show "addRelatedModule e r tok c = (Inr (), update_object m (Module_addRelatedModule None) c)"
    if "get (modules c) rt = None"
    using eq that by simp
qed

theorem addRelatedModule_tolerant_witness:
  "\<not> has (modules example_container) ''nowhere'' \<and>
   addRelatedModule example_env example_dyn ''nowhere'' example_container =
     (Inr (), example_container) \<and>
   example_dyn \<noteq> Undefined \<and>
   get (modules example_container) '':Root'' = Some 0 \<and>
   ref_token example_env example_dyn
     (scope (objects example_container ! 0) @ [metatype (objects example_container ! 0)]) =
     Some '',.R.o.o.t/:Dyn+'' \<and>
   addRelatedModule example_env example_dyn '':Root'' example_container =
     (Inr (), update_object 0 (Module_addRelatedModule (Some 2)) example_container) \<and>
   ref_token example_env (TypeRef ''Lost'')
     (scope (objects example_container ! 0) @ [metatype (objects example_container ! 0)]) =
     Some '',.R.o.o.t/:Lost'' \<and>
   get (modules example_container) '',.R.o.o.t/:Lost'' = None \<and>
   addRelatedModule example_env (TypeRef ''Lost'') '':Root'' example_container =
     (Inr (), update_object 0 (Module_addRelatedModule None) example_container)"
proof -
  have a: "\<not> has (modules example_container) ''nowhere''"
    and b: "get (modules example_container) '':Root'' = Some 0"
    and c: "ref_token example_env example_dyn
     (scope (objects example_container ! 0) @ [metatype (objects example_container ! 0)]) =
     Some '',.R.o.o.t/:Dyn+''"
    and d: "ref_token example_env (TypeRef ''Lost'')
     (scope (objects example_container ! 0) @ [metatype (objects example_container ! 0)]) =
     Some '',.R.o.o.t/:Lost''"
    and f: "get (modules example_container) '',.R.o.o.t/:Lost'' = None"
    and g: "get (modules example_container) '',.R.o.o.t/:Dyn+'' = Some 2"
    and h: "example_dyn \<noteq> Undefined"
    by (simp_all add: example_container_eq has_def get_def new_Module_def example_env_def
        path_token_def example_dyn_def)
  note t1 = addRelatedModule_tolerant [of example_container "''nowhere''" example_env example_dyn]
  note t2 = addRelatedModule_tolerant [of example_container "'':Root''" example_env example_dyn]
  note t3 = addRelatedModule_tolerant [of example_container "'':Root''" example_env
      "TypeRef ''Lost''"]
  from t1 a have p1: "addRelatedModule example_env example_dyn ''nowhere'' example_container =
     (Inr (), example_container)"
    by blast
  from t2 b c have "addRelatedModule example_env example_dyn '':Root'' example_container =
     (Inr (), update_object 0
        (Module_addRelatedModule (get (modules example_container) '',.R.o.o.t/:Dyn+''))
        example_container)"
    by blast
  with g have p2: "addRelatedModule example_env example_dyn '':Root'' example_container =
     (Inr (), update_object 0 (Module_addRelatedModule (Some 2)) example_container)"
    by simp
  from t3 b d f have p3:
    "addRelatedModule example_env (TypeRef ''Lost'') '':Root'' example_container =
     (Inr (), update_object 0 (Module_addRelatedModule None) example_container)"
    by blast
  from a b c d f h p1 p2 p3 show ?thesis by blast
qed

subsection \<open>Unknown tokens\<close>

text \<open>
  Claim C5. Each of \<^verbatim>\<open>addComponent\<close>, \<^verbatim>\<open>addInjectable\<close>, \<^verbatim>\<open>addExportedComponent\<close> and
  \<^verbatim>\<open>addController\<close> throws UnknownModuleException when the token is not in the registry and
  then returns the container unchanged; when the token is registered, the operation is
  the corresponding method of the Module Record that the token leads to, applied to that
  record in the store, and the value \<^verbatim>\<open>addComponent\<close> returns is the value of that method.
\<close>

theorem unknown_token_rejected:
  assumes "wf_container c"
  shows "(\<not> has (modules c) tok \<longrightarrow>
       addComponent x tok c = (Inl UnknownModuleException, c) \<and>
       addInjectable x tok c = (Inl UnknownModuleException, c) \<and>
       addExportedComponent x tok c = (Inl UnknownModuleException, c) \<and>
       addController x tok c = (Inl UnknownModuleException, c)) \<and>
     (has (modules c) tok \<longrightarrow>
       (\<exists>m. get (modules c) tok = Some m \<and> m < length (objects c) \<and>
          addComponent x tok c =
            (Inr (fst (Module_addComponent x (objects c ! m))),
             update_object m (\<lambda>r. snd (Module_addComponent x r)) c) \<and>
          addInjectable x tok c = (Inr (), update_object m (Module_addInjectable x) c) \<and>
          addExportedComponent x tok c =
            (Inr (), update_object m (Module_addExportedComponent x) c) \<and>
          addController x tok c = (Inr (), update_object m (Module_addRoute x) c)))"
proof (intro conjI impI)
  assume "has (modules c) tok"
  then obtain m where m: "get (modules c) tok = Some m" by (auto simp: has_get)
  with assms have "m < length (objects c)" by (rule wf_get_range)
  with m \<open>has (modules c) tok\<close>
  show "\<exists>m. get (modules c) tok = Some m \<and> m < length (objects c) \<and>
          addComponent x tok c =
            (Inr (fst (Module_addComponent x (objects c ! m))),
             update_object m (\<lambda>r. snd (Module_addComponent x r)) c) \<and>
          addInjectable x tok c = (Inr (), update_object m (Module_addInjectable x) c) \<and>
          addExportedComponent x tok c =
            (Inr (), update_object m (Module_addExportedComponent x) c) \<and>
          addController x tok c = (Inr (), update_object m (Module_addRoute x) c)"
    by (simp add: addComponent_def addInjectable_def addExportedComponent_def
        addController_def)
qed (simp_all add: addComponent_def addInjectable_def addExportedComponent_def
    addController_def)

theorem unknown_token_rejected_witness:
  "wf_container example_container \<and>
   \<not> has (modules example_container) ''nonexistent-token'' \<and>
   addComponent ''Service'' ''nonexistent-token'' example_container =
     (Inl UnknownModuleException, example_container) \<and>
   has (modules example_container) '':Root'' \<and>
   addComponent ''Service'' '':Root'' example_container =
     (Inr ''Service'',
      update_object 0 (\<lambda>r. snd (Module_addComponent ''Service'' r)) example_container)"
proof -
  have a: "\<not> has (modules example_container) ''nonexistent-token''"
    and b: "has (modules example_container) '':Root''"
    and g: "get (modules example_container) '':Root'' = Some 0"
    by (simp_all add: example_container_eq has_def get_def)
  note t1 = unknown_token_rejected [OF wf_example_container, of "''nonexistent-token''" "''Service''"]
  note t2 = unknown_token_rejected [OF wf_example_container, of "'':Root''" "''Service''"]
  from t1 a have p1: "addComponent ''Service'' ''nonexistent-token'' example_container =
     (Inl UnknownModuleException, example_container)"
    by blast
  from t2 b g have p2: "addComponent ''Service'' '':Root'' example_container =
     (Inr (fst (Module_addComponent ''Service'' (objects example_container ! 0))),
      update_object 0 (\<lambda>r. snd (Module_addComponent ''Service'' r)) example_container)"
    by auto
  from a b p1 p2 wf_example_container show ?thesis
    by (simp add: Module_addComponent_def)
qed

subsection \<open>Reading dynamic metadata\<close>

text \<open>
  Claim C9. \<^verbatim>\<open>getDynamicMetadataByToken(token, key)\<close> returns the stored list of the key
  when the token has stored metadata and the field is present, and the empty list when
  the token has no stored metadata and when the field is absent: the two cases give the
  same result.
\<close>

theorem getDynamicMetadataByToken_cases:
  "(\<forall>md xs. dynamicModulesMetadata c tok = Some md \<and> field md k = Some xs \<longrightarrow>
      getDynamicMetadataByToken c tok k = xs) \<and>
   (dynamicModulesMetadata c tok = None \<longrightarrow> getDynamicMetadataByToken c tok k = []) \<and>
   (\<forall>md. dynamicModulesMetadata c tok = Some md \<and> field md k = None \<longrightarrow>
      getDynamicMetadataByToken c tok k = [])"
  by (simp add: getDynamicMetadataByToken_def)

theorem getDynamicMetadataByToken_cases_witness:
  "dynamicModulesMetadata example_container '',.R.o.o.t/:Dyn+'' =
     Some (Metadata (Some [TypeRef ''Sub'']) None None None None) \<and>
   field (Metadata (Some [TypeRef ''Sub'']) None None None None) KImports =
     Some [TypeRef ''Sub''] \<and>
   getDynamicMetadataByToken example_container '',.R.o.o.t/:Dyn+'' KImports = [TypeRef ''Sub''] \<and>
   field (Metadata (Some [TypeRef ''Sub'']) None None None None) KExports = None \<and>
   getDynamicMetadataByToken example_container '',.R.o.o.t/:Dyn+'' KExports = [] \<and>
   dynamicModulesMetadata example_container ''nonexistent-token'' = None \<and>
   getDynamicMetadataByToken example_container ''nonexistent-token'' KImports = []"
proof -
  have a: "dynamicModulesMetadata example_container '',.R.o.o.t/:Dyn+'' =
     Some (Metadata (Some [TypeRef ''Sub'']) None None None None)"
    and b: "dynamicModulesMetadata example_container ''nonexistent-token'' = None"
    by (simp_all add: example_container_eq)
  have f1: "field (Metadata (Some [TypeRef ''Sub'']) None None None None) KImports =
     Some [TypeRef ''Sub'']"
    and f2: "field (Metadata (Some [TypeRef ''Sub'']) None None None None) KExports = None"
    by simp_all
  from getDynamicMetadataByToken_cases [of example_container "'',.R.o.o.t/:Dyn+''" KImports] a f1
  have p1: "getDynamicMetadataByToken example_container '',.R.o.o.t/:Dyn+'' KImports =
      [TypeRef ''Sub'']"
    by blast
  from getDynamicMetadataByToken_cases [of example_container "'',.R.o.o.t/:Dyn+''" KExports] a f2
  have p2: "getDynamicMetadataByToken example_container '',.R.o.o.t/:Dyn+'' KExports = []"
    by blast
  from getDynamicMetadataByToken_cases [of example_container "''nonexistent-token''" KImports] b
  have p3: "getDynamicMetadataByToken example_container ''nonexistent-token'' KImports = []"
    by blast
  from a b f1 f2 p1 p2 p3 show ?thesis by blast
qed

subsection \<open>Nested dynamic registration\<close>











subsection \<open>Binding the global modules\<close>

lemma bindGlobalModuleToModule_frame [simp]:
  "modules (bindGlobalModuleToModule m g c) = modules c"
  "globalModules (bindGlobalModuleToModule m g c) = globalModules c"
  "dynamicModulesMetadata (bindGlobalModuleToModule m g c) = dynamicModulesMetadata c"
  "applicationRef (bindGlobalModuleToModule m g c) = applicationRef c"
  "length (objects (bindGlobalModuleToModule m g c)) = length (objects c)"
  by (simp_all add: bindGlobalModuleToModule_def)

lemma bindGlobalModuleToModule_related:
  "i < length (objects c) \<Longrightarrow>
   set (relatedModules (objects (bindGlobalModuleToModule m g c) ! i)) =
     set (relatedModules (objects c ! i)) \<union> (if i = m \<and> g \<noteq> m then {g} else {})"
  by (auto simp: bindGlobalModuleToModule_def update_object_nth)

lemma fold_bind_frame [simp]:
  "modules (fold (\<lambda>g. bindGlobalModuleToModule m g) gs c) = modules c"
  "globalModules (fold (\<lambda>g. bindGlobalModuleToModule m g) gs c) = globalModules c"
  "dynamicModulesMetadata (fold (\<lambda>g. bindGlobalModuleToModule m g) gs c) =
     dynamicModulesMetadata c"
  "applicationRef (fold (\<lambda>g. bindGlobalModuleToModule m g) gs c) = applicationRef c"
  "length (objects (fold (\<lambda>g. bindGlobalModuleToModule m g) gs c)) = length (objects c)"
  by (induction gs arbitrary: c) simp_all

lemma fold_bind_related:
  "i < length (objects c) \<Longrightarrow>
   set (relatedModules (objects (fold (\<lambda>g. bindGlobalModuleToModule m g) gs c) ! i)) =
     set (relatedModules (objects c ! i)) \<union> (if i = m then set gs - {m} else {})"
proof (induction gs arbitrary: c)
  case Nil
  then show ?case by simp
next
  case (Cons g gs)
  have "i < length (objects (bindGlobalModuleToModule m g c))" using Cons.prems by simp
  from Cons.IH [OF this] Cons.prems show ?case
    by (auto simp: bindGlobalModuleToModule_related)
qed

lemma bindGlobalsToRelatedModules_frame [simp]:
  "modules (bindGlobalsToRelatedModules m c) = modules c"
  "globalModules (bindGlobalsToRelatedModules m c) = globalModules c"
  "dynamicModulesMetadata (bindGlobalsToRelatedModules m c) = dynamicModulesMetadata c"
  "applicationRef (bindGlobalsToRelatedModules m c) = applicationRef c"
  "length (objects (bindGlobalsToRelatedModules m c)) = length (objects c)"
  by (simp_all add: bindGlobalsToRelatedModules_def)

lemma bindGlobalsToRelatedModules_related:
  "i < length (objects c) \<Longrightarrow>
   set (relatedModules (objects (bindGlobalsToRelatedModules m c) ! i)) =
     set (relatedModules (objects c ! i)) \<union>
     (if i = m then set (globalModules c) - {m} else {})"
  by (simp add: bindGlobalsToRelatedModules_def fold_bind_related)

lemma fold_bindGlobals_frame [simp]:
  "modules (fold (\<lambda>m. bindGlobalsToRelatedModules m) ms c) = modules c"
  "globalModules (fold (\<lambda>m. bindGlobalsToRelatedModules m) ms c) = globalModules c"
  "dynamicModulesMetadata (fold (\<lambda>m. bindGlobalsToRelatedModules m) ms c) =
     dynamicModulesMetadata c"
  "applicationRef (fold (\<lambda>m. bindGlobalsToRelatedModules m) ms c) = applicationRef c"
  "length (objects (fold (\<lambda>m. bindGlobalsToRelatedModules m) ms c)) = length (objects c)"
  by (induction ms arbitrary: c) simp_all

lemma fold_bindGlobals_related:
  "i < length (objects c) \<Longrightarrow>
   set (relatedModules (objects (fold (\<lambda>m. bindGlobalsToRelatedModules m) ms c) ! i)) =
     set (relatedModules (objects c ! i)) \<union>
     (if i \<in> set ms then set (globalModules c) - {i} else {})"
proof (induction ms arbitrary: c)
  case Nil
  then show ?case by simp
next
  case (Cons m ms)
  have "i < length (objects (bindGlobalsToRelatedModules m c))" using Cons.prems by simp
  from Cons.IH [OF this] Cons.prems show ?case
    by (auto simp: bindGlobalsToRelatedModules_related)
qed

text \<open>
  Claim C2. Global fan-out completeness. After \<^verbatim>\<open>bindGlobalScope()\<close> on a well-formed
  container, every global module \<open>g\<close> is among the related modules of every registered
  module \<open>m\<close> other than \<open>g\<close> itself (whether \<open>m\<close> is global or not). The pass changes
  nothing but related-module sets: the set of a registered record gains every global
  module except the record itself, the set of a record that is not registered stays.
\<close>

theorem bindGlobalScope_complete:
  assumes "wf_container c"
  shows "modules (bindGlobalScope c) = modules c \<and>
    globalModules (bindGlobalScope c) = globalModules c \<and>
    dynamicModulesMetadata (bindGlobalScope c) = dynamicModulesMetadata c \<and>
    (\<forall>m \<in> set (map snd (modules c)). \<forall>g \<in> set (globalModules c).
       m \<noteq> g \<longrightarrow> g \<in> set (relatedModules (objects (bindGlobalScope c) ! m))) \<and>
    (\<forall>i < length (objects c).
       set (relatedModules (objects (bindGlobalScope c) ! i)) =
         set (relatedModules (objects c ! i)) \<union>
         (if i \<in> set (map snd (modules c)) then set (globalModules c) - {i} else {}))"
proof -
  have rel: "set (relatedModules (objects (bindGlobalScope c) ! i)) =
         set (relatedModules (objects c ! i)) \<union>
         (if i \<in> set (map snd (modules c)) then set (globalModules c) - {i} else {})"
    if "i < length (objects c)" for i
    unfolding bindGlobalScope_def using that by (rule fold_bindGlobals_related)
  have "g \<in> set (relatedModules (objects (bindGlobalScope c) ! m))"
    if "m \<in> set (map snd (modules c))" "g \<in> set (globalModules c)" "m \<noteq> g" for m g
  proof -
    from assms that(1) have "m < length (objects c)" by (auto simp: wf_container_def)
    from rel [OF this] that show ?thesis by auto
  qed
  with rel show ?thesis by (simp add: bindGlobalScope_def)
qed

theorem bindGlobalScope_complete_witness:
  "wf_container example_container \<and>
   (0::nat) \<in> set (map snd (modules example_container)) \<and>
   (1::nat) \<in> set (globalModules example_container) \<and>
   (0::nat) \<noteq> 1 \<and>
   1 \<in> set (relatedModules (objects (bindGlobalScope example_container) ! 0)) \<and>
   (1::nat) < length (objects example_container) \<and>
   set (relatedModules (objects (bindGlobalScope example_container) ! 1)) = {}"
proof -
  have a: "(0::nat) \<in> set (map snd (modules example_container))"
    and b: "(1::nat) \<in> set (globalModules example_container)"
    and l: "(1::nat) < length (objects example_container)"
    and r: "set (relatedModules (objects example_container ! 1)) = {}"
    and g: "set (globalModules example_container) - {1} = {}"
    and m: "(1::nat) \<in> set (map snd (modules example_container))"
    by (simp_all add: example_container_eq new_Module_def)
  note t = bindGlobalScope_complete [OF wf_example_container]
  from t a b have p1: "1 \<in> set (relatedModules (objects (bindGlobalScope example_container) ! 0))"
    by (metis zero_neq_one)
  from t l have "set (relatedModules (objects (bindGlobalScope example_container) ! 1)) =
      set (relatedModules (objects example_container ! 1)) \<union>
      (if 1 \<in> set (map snd (modules example_container))
       then set (globalModules example_container) - {1} else {})"
    by blast
  with r g m have p2: "set (relatedModules (objects (bindGlobalScope example_container) ! 1)) = {}"
    by simp
  from wf_example_container a b l p1 p2 show ?thesis by simp
qed

subsection \<open>No self-relation\<close>

text \<open>
  The claim fails where the token factory ignores the scope. After \<open>A\<close> is registered,
  \<^verbatim>\<open>addRelatedModule(A, token of A)\<close> computes, for the related reference in the scope
  extended by \<open>A\<close>, the token of \<open>A\<close> again, finds the record of \<open>A\<close>, and hands it to
  the record of \<open>A\<close>: there is no check in \<^verbatim>\<open>addRelatedModule\<close> that the record found
  is not the owner.
\<close>

theorem no_self_relation_counterexample:
  "reachable name_env
     (snd (addRelatedModule name_env (TypeRef ''A'') ''A''
        (snd (addModule name_env (TypeRef ''A'') [] empty_container)))) \<and>
   record_of (snd (addModule name_env (TypeRef ''A'') [] empty_container)) ''A'' =
     Some (new_Module ''A'' []) \<and>
   fst (addRelatedModule name_env (TypeRef ''A'') ''A''
        (snd (addModule name_env (TypeRef ''A'') [] empty_container))) = Inr () \<and>
   (0::nat) < length (objects
     (snd (addRelatedModule name_env (TypeRef ''A'') ''A''
        (snd (addModule name_env (TypeRef ''A'') [] empty_container))))) \<and>
   (0::nat) \<in> set (relatedModules (objects
     (snd (addRelatedModule name_env (TypeRef ''A'') ''A''
        (snd (addModule name_env (TypeRef ''A'') [] empty_container)))) ! 0))"
proof -
  have "reachable name_env
     (snd (addRelatedModule name_env (TypeRef ''A'') ''A''
        (snd (addModule name_env (TypeRef ''A'') [] empty_container))))"
    by (intro reachable_where.intros) simp
  then show ?thesis
    by (simp add: addRelatedModule_def update_object_def record_of_def
        Module_addRelatedModule_def new_Module_def name_env_def addModule.simps truthy_def
        has_def get_def empty_container_def set_entry_def Let_def isGlobalModule_def
        addGlobalModule_def set_add_def)
qed

text \<open>
  Claim C7, amended. No self-relation. In every container reached from the empty one
  through the methods of the container, where no call of \<^verbatim>\<open>addRelatedModule\<close> resolved
  the related reference to the record of the owner itself, no Module Record is among its
  own related modules, even if the module is declared global; in particular
  \<^verbatim>\<open>bindGlobalScope\<close> skips the edge whenever the visited module and the global module
  are the same record: on any container, a record is among its own related modules after
  \<^verbatim>\<open>bindGlobalScope\<close> only when it was before.
\<close>

theorem no_self_relation_reachable:
  "(reachable_where (\<lambda>r tok c. \<not> resolves_to_owner e r tok c) e c \<longrightarrow> no_self_relation c) \<and>
   (\<forall>i < length (objects c).
      (i \<in> set (relatedModules (objects (bindGlobalScope c) ! i))) =
      (i \<in> set (relatedModules (objects c ! i)))) \<and>
   bindGlobalModuleToModule m m c = c"
proof -
  have "(i \<in> set (relatedModules (objects (bindGlobalScope c) ! i))) =
      (i \<in> set (relatedModules (objects c ! i)))" if "i < length (objects c)" for i
  proof -
    have "set (relatedModules (objects (bindGlobalScope c) ! i)) =
        set (relatedModules (objects c ! i)) \<union>
        (if i \<in> set (map snd (modules c)) then set (globalModules c) - {i} else {})"
      unfolding bindGlobalScope_def using that by (rule fold_bindGlobals_related)
    then show ?thesis by auto
  qed
  moreover have "bindGlobalModuleToModule m m c = c"
    by (simp add: bindGlobalModuleToModule_def)
  ultimately show ?thesis using reachable_no_self [of e c] by blast
qed

theorem no_self_relation_reachable_witness:
  "reachable_where (\<lambda>r tok c. \<not> resolves_to_owner name_env r tok c) name_env related_example \<and>
   (1::nat) \<in> set (globalModules related_example) \<and>
   (1::nat) < length (objects related_example) \<and>
   (1::nat) \<notin> set (relatedModules (objects related_example ! 1)) \<and>
   (1::nat) \<notin> set (relatedModules (objects (bindGlobalScope related_example) ! 1)) \<and>
   bindGlobalModuleToModule 1 1 related_example = related_example"
proof -
  have n: "\<not> resolves_to_owner name_env (TypeRef ''GB'') ''A''
      (snd (addModule name_env (TypeRef ''GB'') [''A'']
         (snd (addModule name_env (TypeRef ''A'') [] empty_container))))"
    by (simp add: resolves_to_owner_def name_env_def addModule.simps truthy_def
        has_def get_def empty_container_def set_entry_def Let_def isGlobalModule_def
        addGlobalModule_def set_add_def)
  have r: "reachable_where (\<lambda>r tok c. \<not> resolves_to_owner name_env r tok c) name_env
      related_example"
    unfolding related_example_def
    by (rule reachable_where.r_addRelatedModule
        [where P = "\<lambda>r tok c. \<not> resolves_to_owner name_env r tok c", OF _ n])
      (intro reachable_where.intros)
  have g: "(1::nat) \<in> set (globalModules related_example)"
    and l: "(1::nat) < length (objects related_example)"
    by (simp_all add: related_example_eq)
  note t = no_self_relation_reachable [of name_env related_example 1]
  from t r l have a: "(1::nat) \<notin> set (relatedModules (objects related_example ! 1))"
    by (simp add: no_self_relation_def)
  from t l a have b:
    "(1::nat) \<notin> set (relatedModules (objects (bindGlobalScope related_example) ! 1))"
    by blast
  from t have c: "bindGlobalModuleToModule 1 1 related_example = related_example"
    by blast
  from r g l a b c show ?thesis by simp
qed

subsection \<open>Clearing\<close>

text \<open>
  Claim C8. For every container state, \<^verbatim>\<open>clear()\<close> removes every Module Record from the
  registry and leaves the dynamic metadata store and the global-module set as they were;
  the application reference and the records behind the references stay as well.
\<close>

theorem clear_frame:
  "modules (clear c) = [] \<and>
   dynamicModulesMetadata (clear c) = dynamicModulesMetadata c \<and>
   globalModules (clear c) = globalModules c \<and>
   applicationRef (clear c) = applicationRef c \<and>
   objects (clear c) = objects c \<and>
   (\<forall>tok. \<not> has (modules (clear c)) tok \<and> record_of (clear c) tok = None)"
  by (simp add: clear_def has_def record_of_def get_def)

end
